theory Spec2Isabelle
  imports Main "HOL-Library.Sublist"
begin

section \<open>Python strings\<close>

text \<open>
  A Python \<open>str\<close> is a sequence of Unicode code points, and \<open>len\<close>, slicing, \<open>in\<close>,
  \<open>count\<close> and \<open>split\<close> all work on code points. A code point is a natural number here and
  a string is a list of them. The literals of the server that are not ASCII (the Japanese
  texts of \<open>generate_answer\<close>) are written as their code points; ASCII literals are written
  with \<open>ascii\<close>.
\<close>

type_synonym pychar = nat
type_synonym pystr = "nat list"

definition ascii :: "string \<Rightarrow> pystr" where
  "ascii s = map of_char s"

text \<open>
  \<open>str.isspace\<close> on one code point: the white space that \<open>str.split()\<close> and
  \<open>str.strip()\<close> look for. The list is the complete one of CPython.
\<close>

definition is_space :: "pychar \<Rightarrow> bool" where
  "is_space c \<longleftrightarrow>
     (0x09 \<le> c \<and> c \<le> 0x0D) \<or> (0x1C \<le> c \<and> c \<le> 0x20) \<or> c = 0x85 \<or> c = 0xA0 \<or>
     c = 0x1680 \<or> (0x2000 \<le> c \<and> c \<le> 0x200A) \<or> c = 0x2028 \<or> c = 0x2029 \<or>
     c = 0x202F \<or> c = 0x205F \<or> c = 0x3000"

text \<open>
  \<open>str.lower\<close>, as CPython computes it. Every code point is replaced by its full lowercase
  mapping, which is one code point, except for the capital I with dot above (\<open>0x130\<close>),
  whose mapping is two code points, and for the capital sigma (\<open>0x3A3\<close>), which becomes
  the final sigma \<open>0x3C2\<close> or the small sigma \<open>0x3C3\<close> according to its context.

  The three tables are those of the Unicode Character Database, version 14.0.0, which
  Python 3.11 carries. \<open>lower_blocks\<close> holds the simple lowercase mappings above the
  ASCII range: an entry \<open>(lo, hi, step, target)\<close> maps the code points \<open>lo\<close>, \<open>lo + step\<close>,
  \<open>\<dots>\<close> up to \<open>hi\<close> to \<open>target\<close>, \<open>target + step\<close>, \<open>\<dots>\<close>; a code point in no entry is its
  own mapping. \<open>cased_ranges\<close> and \<open>case_ignorable_ranges\<close> hold the code points with the
  properties Cased and Case_Ignorable, as closed intervals.
\<close>

definition lower_blocks :: "(nat \<times> nat \<times> nat \<times> nat) list" where
  "lower_blocks =
    [(0xC0, 0xD6, 1, 0xE0), (0xD8, 0xDE, 1, 0xF8), (0x100, 0x12E, 2, 0x101),
     (0x132, 0x136, 2, 0x133), (0x139, 0x147, 2, 0x13A), (0x14A, 0x176, 2, 0x14B),
     (0x178, 0x178, 1, 0xFF), (0x179, 0x17D, 2, 0x17A), (0x181, 0x181, 1, 0x253),
     (0x182, 0x184, 2, 0x183), (0x186, 0x186, 1, 0x254), (0x187, 0x187, 1, 0x188),
     (0x189, 0x18A, 1, 0x256), (0x18B, 0x18B, 1, 0x18C), (0x18E, 0x18E, 1, 0x1DD),
     (0x18F, 0x18F, 1, 0x259), (0x190, 0x190, 1, 0x25B), (0x191, 0x191, 1, 0x192),
     (0x193, 0x193, 1, 0x260), (0x194, 0x194, 1, 0x263), (0x196, 0x196, 1, 0x269),
     (0x197, 0x197, 1, 0x268), (0x198, 0x198, 1, 0x199), (0x19C, 0x19C, 1, 0x26F),
     (0x19D, 0x19D, 1, 0x272), (0x19F, 0x19F, 1, 0x275), (0x1A0, 0x1A4, 2, 0x1A1),
     (0x1A6, 0x1A6, 1, 0x280), (0x1A7, 0x1A7, 1, 0x1A8), (0x1A9, 0x1A9, 1, 0x283),
     (0x1AC, 0x1AC, 1, 0x1AD), (0x1AE, 0x1AE, 1, 0x288), (0x1AF, 0x1AF, 1, 0x1B0),
     (0x1B1, 0x1B2, 1, 0x28A), (0x1B3, 0x1B5, 2, 0x1B4), (0x1B7, 0x1B7, 1, 0x292),
     (0x1B8, 0x1B8, 1, 0x1B9), (0x1BC, 0x1BC, 1, 0x1BD), (0x1C4, 0x1C4, 1, 0x1C6),
     (0x1C5, 0x1C5, 1, 0x1C6), (0x1C7, 0x1C7, 1, 0x1C9), (0x1C8, 0x1C8, 1, 0x1C9),
     (0x1CA, 0x1CA, 1, 0x1CC), (0x1CB, 0x1DB, 2, 0x1CC), (0x1DE, 0x1EE, 2, 0x1DF),
     (0x1F1, 0x1F1, 1, 0x1F3), (0x1F2, 0x1F4, 2, 0x1F3), (0x1F6, 0x1F6, 1, 0x195),
     (0x1F7, 0x1F7, 1, 0x1BF), (0x1F8, 0x21E, 2, 0x1F9), (0x220, 0x220, 1, 0x19E),
     (0x222, 0x232, 2, 0x223), (0x23A, 0x23A, 1, 0x2C65), (0x23B, 0x23B, 1, 0x23C),
     (0x23D, 0x23D, 1, 0x19A), (0x23E, 0x23E, 1, 0x2C66), (0x241, 0x241, 1, 0x242),
     (0x243, 0x243, 1, 0x180), (0x244, 0x244, 1, 0x289), (0x245, 0x245, 1, 0x28C),
     (0x246, 0x24E, 2, 0x247), (0x370, 0x372, 2, 0x371), (0x376, 0x376, 1, 0x377),
     (0x37F, 0x37F, 1, 0x3F3), (0x386, 0x386, 1, 0x3AC), (0x388, 0x38A, 1, 0x3AD),
     (0x38C, 0x38C, 1, 0x3CC), (0x38E, 0x38F, 1, 0x3CD), (0x391, 0x3A1, 1, 0x3B1),
     (0x3A3, 0x3AB, 1, 0x3C3), (0x3CF, 0x3CF, 1, 0x3D7), (0x3D8, 0x3EE, 2, 0x3D9),
     (0x3F4, 0x3F4, 1, 0x3B8), (0x3F7, 0x3F7, 1, 0x3F8), (0x3F9, 0x3F9, 1, 0x3F2),
     (0x3FA, 0x3FA, 1, 0x3FB), (0x3FD, 0x3FF, 1, 0x37B), (0x400, 0x40F, 1, 0x450),
     (0x410, 0x42F, 1, 0x430), (0x460, 0x480, 2, 0x461), (0x48A, 0x4BE, 2, 0x48B),
     (0x4C0, 0x4C0, 1, 0x4CF), (0x4C1, 0x4CD, 2, 0x4C2), (0x4D0, 0x52E, 2, 0x4D1),
     (0x531, 0x556, 1, 0x561), (0x10A0, 0x10C5, 1, 0x2D00), (0x10C7, 0x10C7, 1, 0x2D27),
     (0x10CD, 0x10CD, 1, 0x2D2D), (0x13A0, 0x13EF, 1, 0xAB70), (0x13F0, 0x13F5, 1, 0x13F8),
     (0x1C90, 0x1CBA, 1, 0x10D0), (0x1CBD, 0x1CBF, 1, 0x10FD), (0x1E00, 0x1E94, 2, 0x1E01),
     (0x1E9E, 0x1E9E, 1, 0xDF), (0x1EA0, 0x1EFE, 2, 0x1EA1), (0x1F08, 0x1F0F, 1, 0x1F00),
     (0x1F18, 0x1F1D, 1, 0x1F10), (0x1F28, 0x1F2F, 1, 0x1F20), (0x1F38, 0x1F3F, 1, 0x1F30),
     (0x1F48, 0x1F4D, 1, 0x1F40), (0x1F59, 0x1F5F, 2, 0x1F51), (0x1F68, 0x1F6F, 1, 0x1F60),
     (0x1F88, 0x1F8F, 1, 0x1F80), (0x1F98, 0x1F9F, 1, 0x1F90), (0x1FA8, 0x1FAF, 1, 0x1FA0),
     (0x1FB8, 0x1FB9, 1, 0x1FB0), (0x1FBA, 0x1FBB, 1, 0x1F70), (0x1FBC, 0x1FBC, 1, 0x1FB3),
     (0x1FC8, 0x1FCB, 1, 0x1F72), (0x1FCC, 0x1FCC, 1, 0x1FC3), (0x1FD8, 0x1FD9, 1, 0x1FD0),
     (0x1FDA, 0x1FDB, 1, 0x1F76), (0x1FE8, 0x1FE9, 1, 0x1FE0), (0x1FEA, 0x1FEB, 1, 0x1F7A),
     (0x1FEC, 0x1FEC, 1, 0x1FE5), (0x1FF8, 0x1FF9, 1, 0x1F78), (0x1FFA, 0x1FFB, 1, 0x1F7C),
     (0x1FFC, 0x1FFC, 1, 0x1FF3), (0x2126, 0x2126, 1, 0x3C9), (0x212A, 0x212A, 1, 0x6B),
     (0x212B, 0x212B, 1, 0xE5), (0x2132, 0x2132, 1, 0x214E), (0x2160, 0x216F, 1, 0x2170),
     (0x2183, 0x2183, 1, 0x2184), (0x24B6, 0x24CF, 1, 0x24D0), (0x2C00, 0x2C2F, 1, 0x2C30),
     (0x2C60, 0x2C60, 1, 0x2C61), (0x2C62, 0x2C62, 1, 0x26B), (0x2C63, 0x2C63, 1, 0x1D7D),
     (0x2C64, 0x2C64, 1, 0x27D), (0x2C67, 0x2C6B, 2, 0x2C68), (0x2C6D, 0x2C6D, 1, 0x251),
     (0x2C6E, 0x2C6E, 1, 0x271), (0x2C6F, 0x2C6F, 1, 0x250), (0x2C70, 0x2C70, 1, 0x252),
     (0x2C72, 0x2C72, 1, 0x2C73), (0x2C75, 0x2C75, 1, 0x2C76), (0x2C7E, 0x2C7F, 1, 0x23F),
     (0x2C80, 0x2CE2, 2, 0x2C81), (0x2CEB, 0x2CED, 2, 0x2CEC), (0x2CF2, 0x2CF2, 1, 0x2CF3),
     (0xA640, 0xA66C, 2, 0xA641), (0xA680, 0xA69A, 2, 0xA681), (0xA722, 0xA72E, 2, 0xA723),
     (0xA732, 0xA76E, 2, 0xA733), (0xA779, 0xA77B, 2, 0xA77A), (0xA77D, 0xA77D, 1, 0x1D79),
     (0xA77E, 0xA786, 2, 0xA77F), (0xA78B, 0xA78B, 1, 0xA78C), (0xA78D, 0xA78D, 1, 0x265),
     (0xA790, 0xA792, 2, 0xA791), (0xA796, 0xA7A8, 2, 0xA797), (0xA7AA, 0xA7AA, 1, 0x266),
     (0xA7AB, 0xA7AB, 1, 0x25C), (0xA7AC, 0xA7AC, 1, 0x261), (0xA7AD, 0xA7AD, 1, 0x26C),
     (0xA7AE, 0xA7AE, 1, 0x26A), (0xA7B0, 0xA7B0, 1, 0x29E), (0xA7B1, 0xA7B1, 1, 0x287),
     (0xA7B2, 0xA7B2, 1, 0x29D), (0xA7B3, 0xA7B3, 1, 0xAB53), (0xA7B4, 0xA7C2, 2, 0xA7B5),
     (0xA7C4, 0xA7C4, 1, 0xA794), (0xA7C5, 0xA7C5, 1, 0x282), (0xA7C6, 0xA7C6, 1, 0x1D8E),
     (0xA7C7, 0xA7C9, 2, 0xA7C8), (0xA7D0, 0xA7D0, 1, 0xA7D1), (0xA7D6, 0xA7D8, 2, 0xA7D7),
     (0xA7F5, 0xA7F5, 1, 0xA7F6), (0xFF21, 0xFF3A, 1, 0xFF41), (0x10400, 0x10427, 1, 0x10428),
     (0x104B0, 0x104D3, 1, 0x104D8), (0x10570, 0x10594, 2, 0x10597), (0x10571, 0x1057A, 1, 0x10598),
     (0x1057D, 0x1058A, 1, 0x105A4), (0x1058D, 0x10592, 1, 0x105B4), (0x10595, 0x10595, 1, 0x105BC),
     (0x10C80, 0x10CB2, 1, 0x10CC0), (0x118A0, 0x118BF, 1, 0x118C0), (0x16E40, 0x16E5F, 1, 0x16E60),
     (0x1E900, 0x1E921, 1, 0x1E922)]"

definition cased_ranges :: "(nat \<times> nat) list" where
  "cased_ranges =
    [(0x41, 0x5A), (0x61, 0x7A), (0xAA, 0xAA), (0xB5, 0xB5), (0xBA, 0xBA),
     (0xC0, 0xD6), (0xD8, 0xF6), (0xF8, 0x1BA), (0x1BC, 0x1BF), (0x1C4, 0x293),
     (0x295, 0x2B8), (0x2C0, 0x2C1), (0x2E0, 0x2E4), (0x345, 0x345), (0x370, 0x373),
     (0x376, 0x377), (0x37A, 0x37D), (0x37F, 0x37F), (0x386, 0x386), (0x388, 0x38A),
     (0x38C, 0x38C), (0x38E, 0x3A1), (0x3A3, 0x3F5), (0x3F7, 0x481), (0x48A, 0x52F),
     (0x531, 0x556), (0x560, 0x588), (0x10A0, 0x10C5), (0x10C7, 0x10C7), (0x10CD, 0x10CD),
     (0x10D0, 0x10FA), (0x10FD, 0x10FF), (0x13A0, 0x13F5), (0x13F8, 0x13FD), (0x1C80, 0x1C88),
     (0x1C90, 0x1CBA), (0x1CBD, 0x1CBF), (0x1D00, 0x1DBF), (0x1E00, 0x1F15), (0x1F18, 0x1F1D),
     (0x1F20, 0x1F45), (0x1F48, 0x1F4D), (0x1F50, 0x1F57), (0x1F59, 0x1F59), (0x1F5B, 0x1F5B),
     (0x1F5D, 0x1F5D), (0x1F5F, 0x1F7D), (0x1F80, 0x1FB4), (0x1FB6, 0x1FBC), (0x1FBE, 0x1FBE),
     (0x1FC2, 0x1FC4), (0x1FC6, 0x1FCC), (0x1FD0, 0x1FD3), (0x1FD6, 0x1FDB), (0x1FE0, 0x1FEC),
     (0x1FF2, 0x1FF4), (0x1FF6, 0x1FFC), (0x2071, 0x2071), (0x207F, 0x207F), (0x2090, 0x209C),
     (0x2102, 0x2102), (0x2107, 0x2107), (0x210A, 0x2113), (0x2115, 0x2115), (0x2119, 0x211D),
     (0x2124, 0x2124), (0x2126, 0x2126), (0x2128, 0x2128), (0x212A, 0x212D), (0x212F, 0x2134),
     (0x2139, 0x2139), (0x213C, 0x213F), (0x2145, 0x2149), (0x214E, 0x214E), (0x2160, 0x217F),
     (0x2183, 0x2184), (0x24B6, 0x24E9), (0x2C00, 0x2CE4), (0x2CEB, 0x2CEE), (0x2CF2, 0x2CF3),
     (0x2D00, 0x2D25), (0x2D27, 0x2D27), (0x2D2D, 0x2D2D), (0xA640, 0xA66D), (0xA680, 0xA69D),
     (0xA722, 0xA787), (0xA78B, 0xA78E), (0xA790, 0xA7CA), (0xA7D0, 0xA7D1), (0xA7D3, 0xA7D3),
     (0xA7D5, 0xA7D9), (0xA7F5, 0xA7F6), (0xA7F8, 0xA7FA), (0xAB30, 0xAB5A), (0xAB5C, 0xAB68),
     (0xAB70, 0xABBF), (0xFB00, 0xFB06), (0xFB13, 0xFB17), (0xFF21, 0xFF3A), (0xFF41, 0xFF5A),
     (0x10400, 0x1044F), (0x104B0, 0x104D3), (0x104D8, 0x104FB), (0x10570, 0x1057A), (0x1057C, 0x1058A),
     (0x1058C, 0x10592), (0x10594, 0x10595), (0x10597, 0x105A1), (0x105A3, 0x105B1), (0x105B3, 0x105B9),
     (0x105BB, 0x105BC), (0x10780, 0x10780), (0x10783, 0x10785), (0x10787, 0x107B0), (0x107B2, 0x107BA),
     (0x10C80, 0x10CB2), (0x10CC0, 0x10CF2), (0x118A0, 0x118DF), (0x16E40, 0x16E7F), (0x1D400, 0x1D454),
     (0x1D456, 0x1D49C), (0x1D49E, 0x1D49F), (0x1D4A2, 0x1D4A2), (0x1D4A5, 0x1D4A6), (0x1D4A9, 0x1D4AC),
     (0x1D4AE, 0x1D4B9), (0x1D4BB, 0x1D4BB), (0x1D4BD, 0x1D4C3), (0x1D4C5, 0x1D505), (0x1D507, 0x1D50A),
     (0x1D50D, 0x1D514), (0x1D516, 0x1D51C), (0x1D51E, 0x1D539), (0x1D53B, 0x1D53E), (0x1D540, 0x1D544),
     (0x1D546, 0x1D546), (0x1D54A, 0x1D550), (0x1D552, 0x1D6A5), (0x1D6A8, 0x1D6C0), (0x1D6C2, 0x1D6DA),
     (0x1D6DC, 0x1D6FA), (0x1D6FC, 0x1D714), (0x1D716, 0x1D734), (0x1D736, 0x1D74E), (0x1D750, 0x1D76E),
     (0x1D770, 0x1D788), (0x1D78A, 0x1D7A8), (0x1D7AA, 0x1D7C2), (0x1D7C4, 0x1D7CB), (0x1DF00, 0x1DF09),
     (0x1DF0B, 0x1DF1E), (0x1E900, 0x1E943), (0x1F130, 0x1F149), (0x1F150, 0x1F169), (0x1F170, 0x1F189)]"

definition case_ignorable_ranges :: "(nat \<times> nat) list" where
  "case_ignorable_ranges =
    [(0x27, 0x27), (0x2E, 0x2E), (0x3A, 0x3A), (0x5E, 0x5E), (0x60, 0x60),
     (0xA8, 0xA8), (0xAD, 0xAD), (0xAF, 0xAF), (0xB4, 0xB4), (0xB7, 0xB8),
     (0x2B0, 0x36F), (0x374, 0x375), (0x37A, 0x37A), (0x384, 0x385), (0x387, 0x387),
     (0x483, 0x489), (0x559, 0x559), (0x55F, 0x55F), (0x591, 0x5BD), (0x5BF, 0x5BF),
     (0x5C1, 0x5C2), (0x5C4, 0x5C5), (0x5C7, 0x5C7), (0x5F4, 0x5F4), (0x600, 0x605),
     (0x610, 0x61A), (0x61C, 0x61C), (0x640, 0x640), (0x64B, 0x65F), (0x670, 0x670),
     (0x6D6, 0x6DD), (0x6DF, 0x6E8), (0x6EA, 0x6ED), (0x70F, 0x70F), (0x711, 0x711),
     (0x730, 0x74A), (0x7A6, 0x7B0), (0x7EB, 0x7F5), (0x7FA, 0x7FA), (0x7FD, 0x7FD),
     (0x816, 0x82D), (0x859, 0x85B), (0x888, 0x888), (0x890, 0x891), (0x898, 0x89F),
     (0x8C9, 0x902), (0x93A, 0x93A), (0x93C, 0x93C), (0x941, 0x948), (0x94D, 0x94D),
     (0x951, 0x957), (0x962, 0x963), (0x971, 0x971), (0x981, 0x981), (0x9BC, 0x9BC),
     (0x9C1, 0x9C4), (0x9CD, 0x9CD), (0x9E2, 0x9E3), (0x9FE, 0x9FE), (0xA01, 0xA02),
     (0xA3C, 0xA3C), (0xA41, 0xA42), (0xA47, 0xA48), (0xA4B, 0xA4D), (0xA51, 0xA51),
     (0xA70, 0xA71), (0xA75, 0xA75), (0xA81, 0xA82), (0xABC, 0xABC), (0xAC1, 0xAC5),
     (0xAC7, 0xAC8), (0xACD, 0xACD), (0xAE2, 0xAE3), (0xAFA, 0xAFF), (0xB01, 0xB01),
     (0xB3C, 0xB3C), (0xB3F, 0xB3F), (0xB41, 0xB44), (0xB4D, 0xB4D), (0xB55, 0xB56),
     (0xB62, 0xB63), (0xB82, 0xB82), (0xBC0, 0xBC0), (0xBCD, 0xBCD), (0xC00, 0xC00),
     (0xC04, 0xC04), (0xC3C, 0xC3C), (0xC3E, 0xC40), (0xC46, 0xC48), (0xC4A, 0xC4D),
     (0xC55, 0xC56), (0xC62, 0xC63), (0xC81, 0xC81), (0xCBC, 0xCBC), (0xCBF, 0xCBF),
     (0xCC6, 0xCC6), (0xCCC, 0xCCD), (0xCE2, 0xCE3), (0xD00, 0xD01), (0xD3B, 0xD3C),
     (0xD41, 0xD44), (0xD4D, 0xD4D), (0xD62, 0xD63), (0xD81, 0xD81), (0xDCA, 0xDCA),
     (0xDD2, 0xDD4), (0xDD6, 0xDD6), (0xE31, 0xE31), (0xE34, 0xE3A), (0xE46, 0xE4E),
     (0xEB1, 0xEB1), (0xEB4, 0xEBC), (0xEC6, 0xEC6), (0xEC8, 0xECD), (0xF18, 0xF19),
     (0xF35, 0xF35), (0xF37, 0xF37), (0xF39, 0xF39), (0xF71, 0xF7E), (0xF80, 0xF84),
     (0xF86, 0xF87), (0xF8D, 0xF97), (0xF99, 0xFBC), (0xFC6, 0xFC6), (0x102D, 0x1030),
     (0x1032, 0x1037), (0x1039, 0x103A), (0x103D, 0x103E), (0x1058, 0x1059), (0x105E, 0x1060),
     (0x1071, 0x1074), (0x1082, 0x1082), (0x1085, 0x1086), (0x108D, 0x108D), (0x109D, 0x109D),
     (0x10FC, 0x10FC), (0x135D, 0x135F), (0x1712, 0x1714), (0x1732, 0x1733), (0x1752, 0x1753),
     (0x1772, 0x1773), (0x17B4, 0x17B5), (0x17B7, 0x17BD), (0x17C6, 0x17C6), (0x17C9, 0x17D3),
     (0x17D7, 0x17D7), (0x17DD, 0x17DD), (0x180B, 0x180F), (0x1843, 0x1843), (0x1885, 0x1886),
     (0x18A9, 0x18A9), (0x1920, 0x1922), (0x1927, 0x1928), (0x1932, 0x1932), (0x1939, 0x193B),
     (0x1A17, 0x1A18), (0x1A1B, 0x1A1B), (0x1A56, 0x1A56), (0x1A58, 0x1A5E), (0x1A60, 0x1A60),
     (0x1A62, 0x1A62), (0x1A65, 0x1A6C), (0x1A73, 0x1A7C), (0x1A7F, 0x1A7F), (0x1AA7, 0x1AA7),
     (0x1AB0, 0x1ACE), (0x1B00, 0x1B03), (0x1B34, 0x1B34), (0x1B36, 0x1B3A), (0x1B3C, 0x1B3C),
     (0x1B42, 0x1B42), (0x1B6B, 0x1B73), (0x1B80, 0x1B81), (0x1BA2, 0x1BA5), (0x1BA8, 0x1BA9),
     (0x1BAB, 0x1BAD), (0x1BE6, 0x1BE6), (0x1BE8, 0x1BE9), (0x1BED, 0x1BED), (0x1BEF, 0x1BF1),
     (0x1C2C, 0x1C33), (0x1C36, 0x1C37), (0x1C78, 0x1C7D), (0x1CD0, 0x1CD2), (0x1CD4, 0x1CE0),
     (0x1CE2, 0x1CE8), (0x1CED, 0x1CED), (0x1CF4, 0x1CF4), (0x1CF8, 0x1CF9), (0x1D2C, 0x1D6A),
     (0x1D78, 0x1D78), (0x1D9B, 0x1DFF), (0x1FBD, 0x1FBD), (0x1FBF, 0x1FC1), (0x1FCD, 0x1FCF),
     (0x1FDD, 0x1FDF), (0x1FED, 0x1FEF), (0x1FFD, 0x1FFE), (0x200B, 0x200F), (0x2018, 0x2019),
     (0x2024, 0x2024), (0x2027, 0x2027), (0x202A, 0x202E), (0x2060, 0x2064), (0x2066, 0x206F),
     (0x2071, 0x2071), (0x207F, 0x207F), (0x2090, 0x209C), (0x20D0, 0x20F0), (0x2C7C, 0x2C7D),
     (0x2CEF, 0x2CF1), (0x2D6F, 0x2D6F), (0x2D7F, 0x2D7F), (0x2DE0, 0x2DFF), (0x2E2F, 0x2E2F),
     (0x3005, 0x3005), (0x302A, 0x302D), (0x3031, 0x3035), (0x303B, 0x303B), (0x3099, 0x309E),
     (0x30FC, 0x30FE), (0xA015, 0xA015), (0xA4F8, 0xA4FD), (0xA60C, 0xA60C), (0xA66F, 0xA672),
     (0xA674, 0xA67D), (0xA67F, 0xA67F), (0xA69C, 0xA69F), (0xA6F0, 0xA6F1), (0xA700, 0xA721),
     (0xA770, 0xA770), (0xA788, 0xA78A), (0xA7F2, 0xA7F4), (0xA7F8, 0xA7F9), (0xA802, 0xA802),
     (0xA806, 0xA806), (0xA80B, 0xA80B), (0xA825, 0xA826), (0xA82C, 0xA82C), (0xA8C4, 0xA8C5),
     (0xA8E0, 0xA8F1), (0xA8FF, 0xA8FF), (0xA926, 0xA92D), (0xA947, 0xA951), (0xA980, 0xA982),
     (0xA9B3, 0xA9B3), (0xA9B6, 0xA9B9), (0xA9BC, 0xA9BD), (0xA9CF, 0xA9CF), (0xA9E5, 0xA9E6),
     (0xAA29, 0xAA2E), (0xAA31, 0xAA32), (0xAA35, 0xAA36), (0xAA43, 0xAA43), (0xAA4C, 0xAA4C),
     (0xAA70, 0xAA70), (0xAA7C, 0xAA7C), (0xAAB0, 0xAAB0), (0xAAB2, 0xAAB4), (0xAAB7, 0xAAB8),
     (0xAABE, 0xAABF), (0xAAC1, 0xAAC1), (0xAADD, 0xAADD), (0xAAEC, 0xAAED), (0xAAF3, 0xAAF4),
     (0xAAF6, 0xAAF6), (0xAB5B, 0xAB5F), (0xAB69, 0xAB6B), (0xABE5, 0xABE5), (0xABE8, 0xABE8),
     (0xABED, 0xABED), (0xFB1E, 0xFB1E), (0xFBB2, 0xFBC2), (0xFE00, 0xFE0F), (0xFE13, 0xFE13),
     (0xFE20, 0xFE2F), (0xFE52, 0xFE52), (0xFE55, 0xFE55), (0xFEFF, 0xFEFF), (0xFF07, 0xFF07),
     (0xFF0E, 0xFF0E), (0xFF1A, 0xFF1A), (0xFF3E, 0xFF3E), (0xFF40, 0xFF40), (0xFF70, 0xFF70),
     (0xFF9E, 0xFF9F), (0xFFE3, 0xFFE3), (0xFFF9, 0xFFFB), (0x101FD, 0x101FD), (0x102E0, 0x102E0),
     (0x10376, 0x1037A), (0x10780, 0x10785), (0x10787, 0x107B0), (0x107B2, 0x107BA), (0x10A01, 0x10A03),
     (0x10A05, 0x10A06), (0x10A0C, 0x10A0F), (0x10A38, 0x10A3A), (0x10A3F, 0x10A3F), (0x10AE5, 0x10AE6),
     (0x10D24, 0x10D27), (0x10EAB, 0x10EAC), (0x10F46, 0x10F50), (0x10F82, 0x10F85), (0x11001, 0x11001),
     (0x11038, 0x11046), (0x11070, 0x11070), (0x11073, 0x11074), (0x1107F, 0x11081), (0x110B3, 0x110B6),
     (0x110B9, 0x110BA), (0x110BD, 0x110BD), (0x110C2, 0x110C2), (0x110CD, 0x110CD), (0x11100, 0x11102),
     (0x11127, 0x1112B), (0x1112D, 0x11134), (0x11173, 0x11173), (0x11180, 0x11181), (0x111B6, 0x111BE),
     (0x111C9, 0x111CC), (0x111CF, 0x111CF), (0x1122F, 0x11231), (0x11234, 0x11234), (0x11236, 0x11237),
     (0x1123E, 0x1123E), (0x112DF, 0x112DF), (0x112E3, 0x112EA), (0x11300, 0x11301), (0x1133B, 0x1133C),
     (0x11340, 0x11340), (0x11366, 0x1136C), (0x11370, 0x11374), (0x11438, 0x1143F), (0x11442, 0x11444),
     (0x11446, 0x11446), (0x1145E, 0x1145E), (0x114B3, 0x114B8), (0x114BA, 0x114BA), (0x114BF, 0x114C0),
     (0x114C2, 0x114C3), (0x115B2, 0x115B5), (0x115BC, 0x115BD), (0x115BF, 0x115C0), (0x115DC, 0x115DD),
     (0x11633, 0x1163A), (0x1163D, 0x1163D), (0x1163F, 0x11640), (0x116AB, 0x116AB), (0x116AD, 0x116AD),
     (0x116B0, 0x116B5), (0x116B7, 0x116B7), (0x1171D, 0x1171F), (0x11722, 0x11725), (0x11727, 0x1172B),
     (0x1182F, 0x11837), (0x11839, 0x1183A), (0x1193B, 0x1193C), (0x1193E, 0x1193E), (0x11943, 0x11943),
     (0x119D4, 0x119D7), (0x119DA, 0x119DB), (0x119E0, 0x119E0), (0x11A01, 0x11A0A), (0x11A33, 0x11A38),
     (0x11A3B, 0x11A3E), (0x11A47, 0x11A47), (0x11A51, 0x11A56), (0x11A59, 0x11A5B), (0x11A8A, 0x11A96),
     (0x11A98, 0x11A99), (0x11C30, 0x11C36), (0x11C38, 0x11C3D), (0x11C3F, 0x11C3F), (0x11C92, 0x11CA7),
     (0x11CAA, 0x11CB0), (0x11CB2, 0x11CB3), (0x11CB5, 0x11CB6), (0x11D31, 0x11D36), (0x11D3A, 0x11D3A),
     (0x11D3C, 0x11D3D), (0x11D3F, 0x11D45), (0x11D47, 0x11D47), (0x11D90, 0x11D91), (0x11D95, 0x11D95),
     (0x11D97, 0x11D97), (0x11EF3, 0x11EF4), (0x13430, 0x13438), (0x16AF0, 0x16AF4), (0x16B30, 0x16B36),
     (0x16B40, 0x16B43), (0x16F4F, 0x16F4F), (0x16F8F, 0x16F9F), (0x16FE0, 0x16FE1), (0x16FE3, 0x16FE4),
     (0x1AFF0, 0x1AFF3), (0x1AFF5, 0x1AFFB), (0x1AFFD, 0x1AFFE), (0x1BC9D, 0x1BC9E), (0x1BCA0, 0x1BCA3),
     (0x1CF00, 0x1CF2D), (0x1CF30, 0x1CF46), (0x1D167, 0x1D169), (0x1D173, 0x1D182), (0x1D185, 0x1D18B),
     (0x1D1AA, 0x1D1AD), (0x1D242, 0x1D244), (0x1DA00, 0x1DA36), (0x1DA3B, 0x1DA6C), (0x1DA75, 0x1DA75),
     (0x1DA84, 0x1DA84), (0x1DA9B, 0x1DA9F), (0x1DAA1, 0x1DAAF), (0x1E000, 0x1E006), (0x1E008, 0x1E018),
     (0x1E01B, 0x1E021), (0x1E023, 0x1E024), (0x1E026, 0x1E02A), (0x1E130, 0x1E13D), (0x1E2AE, 0x1E2AE),
     (0x1E2EC, 0x1E2EF), (0x1E8D0, 0x1E8D6), (0x1E944, 0x1E94B), (0x1F3FB, 0x1F3FF), (0xE0001, 0xE0001),
     (0xE0020, 0xE007F), (0xE0100, 0xE01EF)]"

definition in_ranges :: "(nat \<times> nat) list \<Rightarrow> pychar \<Rightarrow> bool" where
  "in_ranges ranges c = list_ex (\<lambda>(lo, hi). lo \<le> c \<and> c \<le> hi) ranges"

definition is_cased :: "pychar \<Rightarrow> bool" where
  "is_cased c = in_ranges cased_ranges c"

definition is_case_ignorable :: "pychar \<Rightarrow> bool" where
  "is_case_ignorable c = in_ranges case_ignorable_ranges c"

definition in_block :: "pychar \<Rightarrow> nat \<times> nat \<times> nat \<times> nat \<Rightarrow> bool" where
  "in_block c b =
     (case b of (lo, hi, step, target) \<Rightarrow>
        lo \<le> c \<and> c \<le> hi \<and> (c - lo) mod step = 0)"

text \<open>The simple lowercase mapping of a code point: the ASCII range first, then the table.\<close>

definition to_lower :: "pychar \<Rightarrow> pychar" where
  "to_lower c =
     (if c < 0x80 then (if 0x41 \<le> c \<and> c \<le> 0x5A then c + 0x20 else c)
      else (case find (in_block c) lower_blocks of
              None \<Rightarrow> c
            | Some (lo, hi, step, target) \<Rightarrow> target + (c - lo)))"

definition to_lower_full :: "pychar \<Rightarrow> pystr" where
  "to_lower_full c = (if c = 0x130 then [0x69, 0x307] else [to_lower c])"

text \<open>
  The context of a capital sigma: \<open>left\<close> is the text before it, the nearest code point
  first, and \<open>right\<close> the text after it. The sigma is final when the nearest code point
  on the left that is not case-ignorable exists and is cased, and the nearest one on the
  right that is not case-ignorable does not exist or is not cased.
\<close>

definition final_sigma :: "pystr \<Rightarrow> pystr \<Rightarrow> bool" where
  "final_sigma left right =
     (case dropWhile is_case_ignorable left of
        [] \<Rightarrow> False
      | c # _ \<Rightarrow>
          is_cased c \<and>
          (case dropWhile is_case_ignorable right of
             [] \<Rightarrow> True
           | d # _ \<Rightarrow> \<not> is_cased d))"

fun lower_from :: "pystr \<Rightarrow> pystr \<Rightarrow> pystr" where
  "lower_from left [] = []"
| "lower_from left (c # right) =
     (if c = 0x3A3 then [if final_sigma left right then 0x3C2 else 0x3C3]
      else to_lower_full c) @
     lower_from (c # left) right"

definition lower :: "pystr \<Rightarrow> pystr" where
  "lower s = lower_from [] s"

text \<open>\<open>sub in s\<close>: \<open>sub\<close> occurs in \<open>s\<close> at some position.\<close>

fun contains :: "pystr \<Rightarrow> pystr \<Rightarrow> bool" where
  "contains [] sub = (sub = [])"
| "contains (c # cs) sub = (prefix sub (c # cs) \<or> contains cs sub)"

text \<open>
  \<open>s.count(sub)\<close>: the number of occurrences of \<open>sub\<close> found by scanning \<open>s\<close> from the
  left and resuming each time after the end of the occurrence found, so that the
  occurrences counted do not overlap. For the empty \<open>sub\<close> Python returns \<open>len(s) + 1\<close>.
\<close>

function count_str :: "pystr \<Rightarrow> pystr \<Rightarrow> nat" where
  "count_str s sub =
     (if sub = [] then length s + 1
      else if s = [] then 0
      else if prefix sub s then 1 + count_str (drop (length sub) s) sub
      else count_str (tl s) sub)"
  by pat_completeness auto
termination
  by (relation "measure (\<lambda>(s, sub). length s)") auto

declare count_str.simps [simp del]

text \<open>
  \<open>s.split()\<close> without a separator: the maximal runs of characters that are not white
  space, in order; no run is empty. \<open>word\<close> is the run being read, reversed.
\<close>

fun split_ws_from :: "pystr \<Rightarrow> pystr \<Rightarrow> pystr list" where
  "split_ws_from word [] = (if word = [] then [] else [rev word])"
| "split_ws_from word (c # cs) =
     (if is_space c
      then (if word = [] then split_ws_from [] cs else rev word # split_ws_from [] cs)
      else split_ws_from (c # word) cs)"

definition split_ws :: "pystr \<Rightarrow> pystr list" where
  "split_ws s = split_ws_from [] s"

text \<open>
  \<open>s.split(sep)\<close> for a separator: \<open>s\<close> is cut at the occurrences of \<open>sep\<close> found from the
  left, without overlap; the result has one piece more than there are cuts, so it is never
  empty. Python raises \<open>ValueError\<close> on the empty separator; the server only splits on
  \<open>'\n'\<close> and \<open>'\n\n'\<close>, and the model returns the string uncut in that case.
\<close>

function split_str :: "pystr \<Rightarrow> pystr \<Rightarrow> pystr list" where
  "split_str s sep =
     (if sep = [] then [s]
      else if s = [] then [[]]
      else if prefix sep s then [] # split_str (drop (length sep) s) sep
      else (case split_str (tl s) sep of
              [] \<Rightarrow> [[hd s]]
            | piece # pieces \<Rightarrow> (hd s # piece) # pieces))"
  by pat_completeness auto
termination
  by (relation "measure (\<lambda>(s, sep). length s)") auto

declare split_str.simps [simp del]

text \<open>\<open>s.strip()\<close>: leading and trailing white space removed.\<close>

definition strip :: "pystr \<Rightarrow> pystr" where
  "strip s = rev (dropWhile is_space (rev (dropWhile is_space s)))"

text \<open>\<open>sep.join(xs)\<close>.\<close>

fun join :: "pystr \<Rightarrow> pystr list \<Rightarrow> pystr" where
  "join sep [] = []"
| "join sep [x] = x"
| "join sep (x # y # ys) = x @ sep @ join sep (y # ys)"

text \<open>
  \<open>xs[:n]\<close> for an integer \<open>n\<close>: the first \<open>n\<close> elements, and for a negative \<open>n\<close> all but
  the last \<open>-n\<close>.
\<close>

definition slice_to :: "'a list \<Rightarrow> int \<Rightarrow> 'a list" where
  "slice_to xs n =
     (if n < 0 then take (nat (int (length xs) + n)) xs else take (nat n) xs)"

text \<open>
  \<open>xs.sort(key=key, reverse=True)\<close>: a stable sort into descending order of the key.
  CPython keeps the sort stable under \<open>reverse=True\<close> by reversing the list, sorting it
  stably into ascending order and reversing the result; \<open>sort_key\<close> is a stable
  insertion sort.
\<close>

definition sort_reverse :: "('a \<Rightarrow> nat) \<Rightarrow> 'a list \<Rightarrow> 'a list" where
  "sort_reverse key xs = rev (sort_key key (rev xs))"

text \<open>
  \<open>d[k] = v\<close> on a dictionary, which keeps its keys in the order of their first
  insertion: an association list with distinct keys.
\<close>

fun dict_set :: "('k \<times> 'v) list \<Rightarrow> 'k \<Rightarrow> 'v \<Rightarrow> ('k \<times> 'v) list" where
  "dict_set [] k v = [(k, v)]"
| "dict_set ((k', v') # kvs) k v =
     (if k' = k then (k, v) # kvs else (k', v') # dict_set kvs k v)"


text \<open>
  \<open>pathlib.Path\<close> on a POSIX system. A path is a root (empty, one slash, or two slashes
  when the string begins with exactly two) and its components; empty components and the
  components \<open>.\<close> are dropped, so that doubled and trailing slashes vanish. \<open>str_path\<close> is
  \<open>str(path)\<close> and \<open>child\<close> is the path that \<open>glob\<close> yields for an entry of a directory.
\<close>

datatype path = PosixPath (root: pystr) (parts: "pystr list")

definition splitroot :: "pystr \<Rightarrow> pystr \<times> pystr" where
  "splitroot part =
     (if part \<noteq> [] \<and> hd part = 0x2F
      then (let stripped_part = dropWhile (\<lambda>c. c = 0x2F) part
            in if length part - length stripped_part = 2
               then ([0x2F, 0x2F], stripped_part)
               else ([0x2F], stripped_part))
      else ([], part))"

definition Path :: "pystr \<Rightarrow> path" where
  "Path s =
     (case splitroot s of
        (r, rel) \<Rightarrow> PosixPath r (filter (\<lambda>x. x \<noteq> [] \<and> x \<noteq> [0x2E]) (split_str rel [0x2F])))"

definition str_path :: "path \<Rightarrow> pystr" where
  "str_path p = (let s = root p @ join [0x2F] (parts p) in if s = [] then [0x2E] else s)"

definition child :: "path \<Rightarrow> pystr \<Rightarrow> path" where
  "child p name = PosixPath (root p) (parts p @ [name])"


section \<open>The data model\<close>

text \<open>
  The value stored for a file in \<open>self.documents\<close> (a dictionary with the keys \<open>title\<close>,
  \<open>content\<close> and \<open>file_path\<close>; the fields carry the prefix \<open>doc_\<close> here, since
  \<open>SearchResult\<close> has fields of the same names), the class \<open>SearchResult\<close>, and the
  knowledge base itself, whose \<open>documents\<close> is a dictionary from file names to these
  values: an association list in the order of insertion. The score of a result is an
  integer count that pydantic stores in a \<open>float\<close> field; it is a natural number here.
\<close>

record document =
  doc_title :: pystr
  doc_content :: pystr
  doc_file_path :: pystr

record SearchResult =
  title :: pystr
  content :: pystr
  relevance_score :: nat
  file_path :: pystr

record SunziKnowledgeBase =
  data_dir :: path
  documents :: "(pystr \<times> document) list"


section \<open>Loading the documents\<close>

text \<open>
  What \<open>load_documents\<close> sees of the file system: a path either does not exist or holds
  entries, each a file name with what \<open>open\<close> and \<open>read\<close> give for it, \<open>None\<close> when they
  raise (the \<open>except\<close> clause then skips the file).
\<close>

type_synonym filesystem = "path \<Rightarrow> (pystr \<times> pystr option) list option"

text \<open>
  \<open>extract_title\<close>: the loop over the lines of the content returns at the first line that
  starts with \<open>#\<close> and a space; after the loop the placeholder is returned.
\<close>

fun first_heading :: "pystr list \<Rightarrow> pystr" where
  "first_heading [] = ascii ''Unknown Title''"
| "first_heading (line # lines) =
     (if prefix (ascii ''# '') line then strip (drop 2 line) else first_heading lines)"

definition extract_title :: "pystr \<Rightarrow> pystr" where
  "extract_title content_str = first_heading (split_str content_str [0x0A])"

text \<open>
  \<open>load_documents\<close>: \<open>glob("*.md")\<close> keeps the entries whose name ends in \<open>.md\<close>, in the
  order in which the directory yields them. The loop stores a document under the file
  name for each file that could be read. When the directory does not exist the method
  returns at once. The messages printed are not part of the model.
\<close>

definition glob_md :: "(pystr \<times> pystr option) list \<Rightarrow> (pystr \<times> pystr option) list" where
  "glob_md entries = filter (\<lambda>(name, r). suffix (ascii ''.md'') name) entries"

fun load_files ::
  "path \<Rightarrow> (pystr \<times> pystr option) list \<Rightarrow> (pystr \<times> document) list
     \<Rightarrow> (pystr \<times> document) list" where
  "load_files dir [] docs = docs"
| "load_files dir ((name, r) # files) docs =
     (case r of
        None \<Rightarrow> load_files dir files docs
      | Some content_str \<Rightarrow>
          load_files dir files
            (dict_set docs name
               \<lparr>doc_title = extract_title content_str, doc_content = content_str,
                doc_file_path = str_path (child dir name)\<rparr>))"

definition load_documents :: "filesystem \<Rightarrow> SunziKnowledgeBase \<Rightarrow> SunziKnowledgeBase" where
  "load_documents fs self =
     (case fs (data_dir self) of
        None \<Rightarrow> self
      | Some entries \<Rightarrow>
          self\<lparr>documents := load_files (data_dir self) (glob_md entries) (documents self)\<rparr>)"

text \<open>The constructor, and what \<open>/health\<close> reports as \<open>documents_loaded\<close>.\<close>

definition init :: "filesystem \<Rightarrow> pystr \<Rightarrow> SunziKnowledgeBase" where
  "init fs dir = load_documents fs \<lparr>data_dir = Path dir, documents = []\<rparr>"

definition documents_loaded :: "SunziKnowledgeBase \<Rightarrow> nat" where
  "documents_loaded kb = length (documents kb)"


section \<open>Searching\<close>

text \<open>\<open>any(word in paragraph_lower for word in query_words)\<close>.\<close>

fun any_word_in :: "pystr list \<Rightarrow> pystr \<Rightarrow> bool" where
  "any_word_in [] paragraph_lower = False"
| "any_word_in (word # query_words) paragraph_lower =
     (contains paragraph_lower word \<or> any_word_in query_words paragraph_lower)"

fun relevant_from :: "pystr list \<Rightarrow> pystr list \<Rightarrow> pystr list \<Rightarrow> pystr list" where
  "relevant_from query_words [] relevant_paragraphs = relevant_paragraphs"
| "relevant_from query_words (paragraph # paragraphs) relevant_paragraphs =
     (let paragraph_lower = lower paragraph in
      if any_word_in query_words paragraph_lower
      then relevant_from query_words paragraphs (relevant_paragraphs @ [strip paragraph])
      else relevant_from query_words paragraphs relevant_paragraphs)"

definition extract_relevant_content :: "pystr \<Rightarrow> pystr list \<Rightarrow> pystr" where
  "extract_relevant_content content_str query_words =
     (let paragraphs = split_str content_str [0x0A, 0x0A];
          relevant_paragraphs = relevant_from query_words paragraphs []
      in join [0x0A, 0x0A] (take 3 relevant_paragraphs))"

text \<open>The inner loop of \<open>search\<close>, over the words of the query, with the running score.\<close>

fun score_from :: "pystr \<Rightarrow> pystr list \<Rightarrow> nat \<Rightarrow> nat" where
  "score_from content_lower [] score = score"
| "score_from content_lower (word # query_words) score =
     (if contains content_lower word
      then score_from content_lower query_words (score + count_str content_lower word)
      else score_from content_lower query_words score)"

text \<open>The outer loop of \<open>search\<close>, over \<open>self.documents.items()\<close>, with the results so far.\<close>

fun search_from ::
  "pystr \<Rightarrow> (pystr \<times> document) list \<Rightarrow> SearchResult list \<Rightarrow> SearchResult list" where
  "search_from query_lower [] results = results"
| "search_from query_lower ((filename, doc) # items) results =
     (let content_lower = lower (doc_content doc);
          query_words = split_ws query_lower;
          score = score_from content_lower query_words 0
      in if score > 0
         then search_from query_lower items
                (results @
                 [\<lparr>title = doc_title doc,
                   content = extract_relevant_content (doc_content doc) query_words,
                   relevance_score = score,
                   file_path = filename\<rparr>])
         else search_from query_lower items results)"

definition search :: "SunziKnowledgeBase \<Rightarrow> pystr \<Rightarrow> int \<Rightarrow> SearchResult list" where
  "search self query max_results =
     (let query_lower = lower query;
          results = search_from query_lower (documents self) []
      in slice_to (sort_reverse relevance_score results) max_results)"


section \<open>Composing the answer\<close>

text \<open>
  The three literals of \<open>generate_answer\<close>, as code points: the Japanese sentence saying
  that no related information was found; the head of an answer, which is the title
  between corner brackets followed by the word for \<open>from\<close>, a full-width colon and two line
  feeds; and, after two line feeds, the sentence announcing other related teachings,
  which ends with a full-width colon.
\<close>

definition not_found_message :: pystr where
  "not_found_message =
     [0x7533, 0x3057, 0x8A33, 0x3054, 0x3056, 0x3044, 0x307E, 0x305B, 0x3093, 0x304C,
      0x3001, 0x95A2, 0x9023, 0x3059, 0x308B, 0x60C5, 0x5831, 0x304C, 0x898B, 0x3064,
      0x304B, 0x308A, 0x307E, 0x305B, 0x3093, 0x3067, 0x3057, 0x305F, 0x3002]"

definition answer_head :: "pystr \<Rightarrow> pystr" where
  "answer_head t = [0x300C] @ t @ [0x300D, 0x3088, 0x308A, 0xFF1A, 0x0A, 0x0A]"

definition other_teachings :: pystr where
  "other_teachings =
     [0x0A, 0x0A, 0x95A2, 0x9023, 0x3059, 0x308B, 0x4ED6, 0x306E, 0x6559, 0x3048, 0x3082,
      0x3042, 0x308A, 0x307E, 0x3059, 0xFF1A]"

definition generate_answer :: "pystr \<Rightarrow> SearchResult list \<Rightarrow> pystr" where
  "generate_answer query results =
     (if results = [] then not_found_message
      else
        let best_result = hd results;
            answer = answer_head (title best_result);
            answer = answer @ take 500 (content best_result)
        in if length results > 1
           then answer @ other_teachings @ join (ascii '', '') (map title (drop 1 results))
           else answer)"



section \<open>Notions used to state the properties\<close>

text \<open>
  What one pass of the outer loop of \<open>search\<close> computes for a document: its score, and the
  result appended when the score is positive.
\<close>

definition score_of :: "pystr \<Rightarrow> document \<Rightarrow> nat" where
  "score_of query_lower doc =
     score_from (lower (doc_content doc)) (split_ws query_lower) 0"

definition result_of :: "pystr \<Rightarrow> pystr \<times> document \<Rightarrow> SearchResult" where
  "result_of query_lower item =
     \<lparr>title = doc_title (snd item),
      content = extract_relevant_content (doc_content (snd item)) (split_ws query_lower),
      relevance_score = score_of query_lower (snd item),
      file_path = fst item\<rparr>"

text \<open>
  The sum, over the tokens of the query, of what \<open>count\<close> gives for the token in the
  lowercased content of a document.
\<close>

definition doc_score :: "pystr \<Rightarrow> document \<Rightarrow> nat" where
  "doc_score query doc =
     (\<Sum>word\<leftarrow>split_ws (lower query). count_str (lower (doc_content doc)) word)"

text \<open>
  The number of occurrences of \<open>sub\<close> as a substring of \<open>s\<close>: the number of positions of
  \<open>s\<close> at which \<open>sub\<close> begins. Occurrences that overlap are all counted.
\<close>

definition occurrences :: "pystr \<Rightarrow> pystr \<Rightarrow> nat" where
  "occurrences s sub = length (filter (\<lambda>i. prefix sub (drop i s)) [0..<Suc (length s)])"

definition occurrence_sum :: "pystr \<Rightarrow> document \<Rightarrow> nat" where
  "occurrence_sum query doc =
     (\<Sum>word\<leftarrow>split_ws (lower query). occurrences (lower (doc_content doc)) word)"

text \<open>A query matches a document when one of its tokens occurs in the lowercased content.\<close>

definition matches :: "pystr \<Rightarrow> document \<Rightarrow> bool" where
  "matches query doc \<longleftrightarrow>
     (\<exists>word\<in>set (split_ws (lower query)). sublist word (lower (doc_content doc)))"

text \<open>
  A paragraph contains a token as a case-insensitive substring: the token occurs in the
  paragraph once both are lowercased.
\<close>

definition ci_contains :: "pystr \<Rightarrow> pystr \<Rightarrow> bool" where
  "ci_contains paragraph word \<longleftrightarrow> sublist (lower word) (lower paragraph)"

definition qualifies :: "pystr list \<Rightarrow> pystr \<Rightarrow> bool" where
  "qualifies query_words paragraph \<longleftrightarrow> (\<exists>word\<in>set query_words. ci_contains paragraph word)"


section \<open>Example stores\<close>

text \<open>
  The directory of the example of the specification: \<open>a.md\<close> and \<open>b.md\<close>, found in this
  order, and the knowledge base built from it.
\<close>

definition a_md :: pystr where
  "a_md = ascii ''# Strategy'' @ [0x0A, 0x0A] @ ascii ''Win without fighting.'' @
          [0x0A, 0x0A] @ ascii ''Plan carefully.''"

definition b_md :: pystr where
  "b_md = ascii ''# Tactics'' @ [0x0A, 0x0A] @ ascii ''Fight smart.''"

definition example_fs :: filesystem where
  "example_fs p =
     (if p = Path (ascii ''/app/data'')
      then Some [(ascii ''a.md'', Some a_md), (ascii ''b.md'', Some b_md)]
      else None)"

definition example_kb :: SunziKnowledgeBase where
  "example_kb = init example_fs (ascii ''/app/data'')"

definition a_doc :: document where
  "a_doc = \<lparr>doc_title = ascii ''Strategy'', doc_content = a_md,
            doc_file_path = ascii ''/app/data/a.md''\<rparr>"

definition b_doc :: document where
  "b_doc = \<lparr>doc_title = ascii ''Tactics'', doc_content = b_md,
            doc_file_path = ascii ''/app/data/b.md''\<rparr>"

text \<open>A store with one document, whose content is \<open>aaa\<close>.\<close>

definition aaa_doc :: document where
  "aaa_doc = \<lparr>doc_title = ascii ''Unknown Title'', doc_content = ascii ''aaa'',
              doc_file_path = ascii ''/app/data/c.md''\<rparr>"

definition aaa_kb :: SunziKnowledgeBase where
  "aaa_kb = \<lparr>data_dir = Path (ascii ''/app/data''), documents = [(ascii ''c.md'', aaa_doc)]\<rparr>"



text \<open>A store of three documents, the second with the highest score for \<open>fight\<close>.\<close>

definition three_kb :: SunziKnowledgeBase where
  "three_kb =
     \<lparr>data_dir = Path (ascii ''/app/data''),
      documents =
        [(ascii ''x.md'', \<lparr>doc_title = ascii ''X'', doc_content = ascii ''fight'',
                           doc_file_path = ascii ''/app/data/x.md''\<rparr>),
         (ascii ''y.md'', \<lparr>doc_title = ascii ''Y'', doc_content = ascii ''Fight, fight!'',
                           doc_file_path = ascii ''/app/data/y.md''\<rparr>),
         (ascii ''z.md'', \<lparr>doc_title = ascii ''Z'', doc_content = ascii ''fight'',
                           doc_file_path = ascii ''/app/data/z.md''\<rparr>)]\<rparr>"


definition titled_md :: pystr where
  "titled_md = ascii ''## Notes'' @ [0x0A] @ ascii ''#  The Art of War '' @ [0x0A] @
               ascii ''# Second''"

definition untitled_md :: pystr where
  "untitled_md = ascii ''## Notes'' @ [0x0A] @ ascii ''#no space''"


definition five_paragraphs :: pystr where
  "five_paragraphs = ascii ''a b'' @ [0x0A, 0x0A] @ ascii '' A c '' @ [0x0A, 0x0A] @
                     ascii ''x'' @ [0x0A, 0x0A] @ ascii ''a'' @ [0x0A, 0x0A] @ ascii ''A''"

definition fight_results :: "SearchResult list" where
  "fight_results =
     [\<lparr>title = ascii ''Strategy'', content = ascii ''Win without fighting.'',
       relevance_score = 1, file_path = ascii ''a.md''\<rparr>,
      \<lparr>title = ascii ''Tactics'', content = ascii ''Fight smart.'',
       relevance_score = 1, file_path = ascii ''b.md''\<rparr>]"

definition fight_answer :: pystr where
  "fight_answer =
     [0x300C] @ ascii ''Strategy'' @ [0x300D, 0x3088, 0x308A, 0xFF1A, 0x0A, 0x0A] @
     ascii ''Win without fighting.'' @
     [0x0A, 0x0A, 0x95A2, 0x9023, 0x3059, 0x308B, 0x4ED6, 0x306E, 0x6559, 0x3048, 0x3082,
      0x3042, 0x308A, 0x307E, 0x3059, 0xFF1A] @
     ascii ''Tactics''"


section \<open>Properties of the string operations\<close>

text \<open>
  \<open>in\<close> is the sublist relation of the library, and \<open>count\<close> is positive exactly when
  \<open>in\<close> holds. Joining the pieces of a split gives the string back. A token of
  \<open>split()\<close> is not empty and holds no white space. Lowercasing leaves white space as it
  is and goes through a line feed: a line feed is neither cased nor case-ignorable, so
  the context of no sigma reaches across it, and the lowercased text is the lowercased
  paragraphs joined again. An occurrence of a string without line feed in a lowercased
  text therefore lies inside one of the paragraphs of the text.
\<close>

lemma contains_sublist: "contains s sub \<longleftrightarrow> sublist sub s"
  by (induction s) (auto simp: sublist_Cons_right)

lemma contains_Nil [simp]: "contains s []"
  by (cases s) auto

lemma count_str_zero: "\<not> contains s sub \<Longrightarrow> count_str s sub = 0"
proof (induction s sub rule: count_str.induct)
  case (1 s sub)
  show ?case
  proof (cases s)
    case Nil
    with "1.prems" show ?thesis by (simp add: count_str.simps)
  next
    case (Cons c cs)
    with "1.prems" have np: "\<not> prefix sub s" and nc: "\<not> contains cs sub" by auto
    from "1.prems" have ne: "sub \<noteq> []" by auto
    from "1.IH"(2)[OF ne _ np] Cons nc have "count_str (tl s) sub = 0" by simp
    with ne np Cons show ?thesis by (subst count_str.simps) simp
  qed
qed

lemma count_str_pos: "sub \<noteq> [] \<Longrightarrow> contains s sub \<Longrightarrow> 0 < count_str s sub"
proof (induction s)
  case Nil
  then show ?case by simp
next
  case (Cons c cs)
  show ?case
  proof (cases "prefix sub (c # cs)")
    case True
    with Cons.prems show ?thesis by (subst count_str.simps) simp
  next
    case False
    with Cons have "0 < count_str cs sub" by simp
    with False Cons.prems show ?thesis by (subst count_str.simps) simp
  qed
qed

lemma count_str_Nil_sub: "count_str s [] = length s + 1"
  by (subst count_str.simps) simp

lemma count_str_Nil: "count_str [] (c # sub) = 0"
  by (subst count_str.simps) simp

lemma count_str_Cons:
  "count_str (a # s) (c # sub) =
     (if prefix (c # sub) (a # s) then 1 + count_str (drop (length sub) s) (c # sub)
      else count_str s (c # sub))"
  by (subst count_str.simps) simp

lemmas count_str_eval = count_str_Nil_sub count_str_Nil count_str_Cons

lemma split_str_Nil_sep: "split_str s [] = [s]"
  by (subst split_str.simps) simp

lemma split_str_Nil: "split_str [] (c # sep) = [[]]"
  by (subst split_str.simps) simp

lemma split_str_Cons:
  "split_str (a # s) (c # sep) =
     (if prefix (c # sep) (a # s) then [] # split_str (drop (length sep) s) (c # sep)
      else (case split_str s (c # sep) of
              [] \<Rightarrow> [[a]]
            | piece # pieces \<Rightarrow> (a # piece) # pieces))"
  by (subst split_str.simps) (simp split: list.split)

lemmas split_str_eval = split_str_Nil_sep split_str_Nil split_str_Cons

lemma split_str_not_Nil: "split_str s sep \<noteq> []"
  by (subst split_str.simps) (simp split: list.split)

lemma join_Cons: "xs \<noteq> [] \<Longrightarrow> join sep (x # xs) = x @ sep @ join sep xs"
  by (cases xs) simp_all

lemma join_Cons_Cons: "join sep ((a # p) # ps) = a # join sep (p # ps)"
  by (cases ps) simp_all

lemma join_split_str: "sep \<noteq> [] \<Longrightarrow> join sep (split_str s sep) = s"
proof (induction s sep rule: split_str.induct)
  case (1 s sep)
  show ?case
  proof (cases s)
    case Nil
    with "1.prems" show ?thesis by (simp add: split_str.simps)
  next
    case (Cons a s')
    show ?thesis
    proof (cases "prefix sep s")
      case True
      then obtain rest where rest: "s = sep @ rest" by (auto simp: prefix_def)
      from True "1.prems" Cons
      have "split_str s sep = [] # split_str (drop (length sep) s) sep"
        by (subst split_str.simps) simp
      moreover from "1.IH"(1) "1.prems" True Cons
      have "join sep (split_str (drop (length sep) s) sep) = drop (length sep) s" by simp
      ultimately show ?thesis
        using rest by (simp add: join_Cons split_str_not_Nil)
    next
      case False
      obtain p ps where pps: "split_str (tl s) sep = p # ps"
        using split_str_not_Nil [of "tl s" sep] by (cases "split_str (tl s) sep") auto
      from False "1.prems" Cons pps
      have "split_str s sep = (a # p) # ps"
        by (subst split_str.simps) simp
      moreover from "1.IH"(2) "1.prems" False Cons pps
      have "join sep (p # ps) = s'" by simp
      ultimately show ?thesis using Cons by (simp add: join_Cons_Cons)
    qed
  qed
qed

lemma join_not_Nil:
  "xs \<noteq> [] \<Longrightarrow> \<forall>x\<in>set xs. x \<noteq> [] \<Longrightarrow> join sep xs \<noteq> []"
  by (cases xs) (simp_all add: join_Cons_Cons neq_Nil_conv, auto simp: join_Cons_Cons)

lemma split_ws_from_words:
  "w \<in> set (split_ws_from word s) \<Longrightarrow> \<forall>c\<in>set word. \<not> is_space c \<Longrightarrow>
     w \<noteq> [] \<and> (\<forall>c\<in>set w. \<not> is_space c)"
proof (induction s arbitrary: word)
  case Nil
  then show ?case by (cases "word = []") auto
next
  case (Cons c cs)
  show ?case
  proof (cases "is_space c")
    case True
    show ?thesis
    proof (cases "word = []")
      case True
      with \<open>is_space c\<close> Cons.prems have "w \<in> set (split_ws_from [] cs)" by simp
      then show ?thesis by (rule Cons.IH) simp
    next
      case False
      with \<open>is_space c\<close> Cons.prems have "w = rev word \<or> w \<in> set (split_ws_from [] cs)"
        by simp
      then show ?thesis
      proof
        assume "w = rev word"
        with False Cons.prems(2) show ?thesis by simp
      next
        assume "w \<in> set (split_ws_from [] cs)"
        then show ?thesis by (rule Cons.IH) simp
      qed
    qed
  next
    case False
    with Cons.prems have "w \<in> set (split_ws_from (c # word) cs)" by simp
    moreover from False Cons.prems(2) have "\<forall>a\<in>set (c # word). \<not> is_space a" by simp
    ultimately show ?thesis by (rule Cons.IH)
  qed
qed

lemma split_ws_words:
  "w \<in> set (split_ws s) \<Longrightarrow> w \<noteq> [] \<and> (\<forall>c\<in>set w. \<not> is_space c)"
  using split_ws_from_words [of w "[]" s] by (simp add: split_ws_def)

lemma split_ws_from_subset:
  "w \<in> set (split_ws_from word s) \<Longrightarrow> set w \<subseteq> set word \<union> set s"
proof (induction s arbitrary: word)
  case Nil
  then show ?case by (cases "word = []") auto
next
  case (Cons c cs)
  show ?case
  proof (cases "is_space c")
    case True
    with Cons.prems have "w = rev word \<or> w \<in> set (split_ws_from [] cs)"
      by (cases "word = []") auto
    then show ?thesis
    proof
      assume "w = rev word" then show ?thesis by auto
    next
      assume "w \<in> set (split_ws_from [] cs)"
      then have "set w \<subseteq> set [] \<union> set cs" by (rule Cons.IH)
      then show ?thesis by auto
    qed
  next
    case False
    with Cons.prems have "w \<in> set (split_ws_from (c # word) cs)" by simp
    then have "set w \<subseteq> set (c # word) \<union> set cs" by (rule Cons.IH)
    then show ?thesis by auto
  qed
qed

lemma lower_blocks_space_free:
  "list_all (\<lambda>(lo, hi, step, target).
      hi < 0x85 \<or> (0x85 < lo \<and> hi < 0xA0) \<or> (0xA0 < lo \<and> hi < 0x1680) \<or>
      (0x1680 < lo \<and> hi < 0x2000) \<or> (0x200A < lo \<and> hi < 0x2028) \<or>
      (0x2029 < lo \<and> hi < 0x202F) \<or> (0x202F < lo \<and> hi < 0x205F) \<or>
      (0x205F < lo \<and> hi < 0x3000) \<or> 0x3000 < lo) lower_blocks"
  by (simp add: lower_blocks_def)

lemma find_lower_blocks_space:
  assumes "is_space c" "\<not> c < 0x80"
  shows "find (in_block c) lower_blocks = None"
proof -
  have "\<not> in_block c b" if "b \<in> set lower_blocks" for b
  proof -
    obtain lo hi step target where b: "b = (lo, hi, step, target)" by (cases b)
    from that lower_blocks_space_free b
    have "hi < 0x85 \<or> (0x85 < lo \<and> hi < 0xA0) \<or> (0xA0 < lo \<and> hi < 0x1680) \<or>
      (0x1680 < lo \<and> hi < 0x2000) \<or> (0x200A < lo \<and> hi < 0x2028) \<or>
      (0x2029 < lo \<and> hi < 0x202F) \<or> (0x202F < lo \<and> hi < 0x205F) \<or>
      (0x205F < lo \<and> hi < 0x3000) \<or> 0x3000 < lo"
      by (auto simp: list_all_iff)
    with assms show ?thesis
      unfolding b in_block_def is_space_def by (simp only: prod.case) arith
  qed
  then show ?thesis by (simp add: find_None_iff)
qed

lemma to_lower_full_space:
  assumes "is_space c"
  shows "to_lower_full c = [c] \<and> c \<noteq> 0x3A3"
proof -
  from assms have 1: "c \<noteq> 0x130" and 2: "c \<noteq> 0x3A3" and 3: "\<not> (0x41 \<le> c \<and> c \<le> 0x5A)"
    unfolding is_space_def by arith+
  have "to_lower c = c"
  proof (cases "c < 0x80")
    case True
    with 3 show ?thesis by (simp add: to_lower_def)
  next
    case False
    with assms have "find (in_block c) lower_blocks = None" by (rule find_lower_blocks_space)
    with False show ?thesis by (simp add: to_lower_def)
  qed
  with 1 2 show ?thesis by (simp add: to_lower_full_def)
qed

lemma newline_not_case_ignorable: "\<not> is_case_ignorable 10"
  by (simp add: is_case_ignorable_def in_ranges_def case_ignorable_ranges_def)

lemma newline_not_cased: "\<not> is_cased 10"
  by (simp add: is_cased_def in_ranges_def cased_ranges_def)

lemma dropWhile_newline_cut:
  "dropWhile is_case_ignorable (bs @ 10 # rest) =
     (if \<forall>x\<in>set bs. is_case_ignorable x then 10 # rest
      else dropWhile is_case_ignorable bs @ 10 # rest)"
  by (simp add: dropWhile_append newline_not_case_ignorable)

lemma final_sigma_left_cut: "final_sigma (bs @ 10 # rest) right = final_sigma bs right"
proof (cases "\<forall>x\<in>set bs. is_case_ignorable x")
  case True
  then have e: "dropWhile is_case_ignorable bs = []" by simp
  show ?thesis
    by (simp add: final_sigma_def dropWhile_newline_cut newline_not_cased e True)
next
  case False
  then obtain y ys where e: "dropWhile is_case_ignorable bs = y # ys"
    by (cases "dropWhile is_case_ignorable bs") auto
  show ?thesis
    by (simp add: final_sigma_def dropWhile_newline_cut e False)
qed

lemma final_sigma_right_cut: "final_sigma left (as @ 10 # rest) = final_sigma left as"
proof (cases "\<forall>x\<in>set as. is_case_ignorable x")
  case True
  then have e: "dropWhile is_case_ignorable as = []" by simp
  show ?thesis
    by (simp add: final_sigma_def dropWhile_newline_cut newline_not_cased e True cong: list.case_cong)
next
  case False
  then obtain y ys where e: "dropWhile is_case_ignorable as = y # ys"
    by (cases "dropWhile is_case_ignorable as") auto
  show ?thesis
    by (simp add: final_sigma_def dropWhile_newline_cut e False cong: list.case_cong)
qed

lemma lower_from_left_cut: "lower_from (bs @ 10 # rest) s = lower_from bs s"
proof (induction s arbitrary: bs)
  case Nil
  show ?case by simp
next
  case (Cons c s)
  from Cons [of "c # bs"] show ?case by (simp add: final_sigma_left_cut)
qed

lemma lower_from_newline:
  "lower_from left (a @ 10 # b) = lower_from left a @ 10 # lower_from (10 # rev a @ left) b"
proof (induction a arbitrary: left)
  case Nil
  show ?case by (simp add: to_lower_full_def to_lower_def)
next
  case (Cons c a)
  from Cons [of "c # left"] show ?case by (simp add: final_sigma_right_cut)
qed

lemma lower_newline: "lower (a @ 10 # b) = lower a @ 10 # lower b"
  using lower_from_left_cut [of "[]" "rev a" b]
  by (simp add: lower_def lower_from_newline)

lemma lower_from_spaces: "\<forall>c\<in>set p. is_space c \<Longrightarrow> lower_from left p = p"
  by (induction p arbitrary: left) (simp_all add: to_lower_full_space)

lemma lower_join: "lower (join [10, 10] ps) = join [10, 10] (map lower ps)"
proof (induction "[10::nat, 10]" ps rule: join.induct)
  case 1
  show ?case by (simp add: lower_def)
next
  case (2 x)
  show ?case by simp
next
  case (3 x y ys)
  have "lower (x @ 10 # ([] @ 10 # join [10, 10] (y # ys))) =
        lower x @ 10 # (lower [] @ 10 # lower (join [10, 10] (y # ys)))"
    by (simp only: lower_newline)
  with 3 show ?case by (simp add: lower_def)
qed

lemma is_space_newline: "is_space 10"
  by (simp add: is_space_def)

lemma in_set_dropWhile: "x \<in> set xs \<Longrightarrow> \<not> P x \<Longrightarrow> x \<in> set (dropWhile P xs)"
  by (induction xs) auto

lemma strip_not_Nil:
  assumes "x \<in> set s" "\<not> is_space x"
  shows "strip s \<noteq> []"
proof -
  from assms have "x \<in> set (rev (dropWhile is_space s))"
    by (simp add: in_set_dropWhile)
  then have "x \<in> set (dropWhile is_space (rev (dropWhile is_space s)))"
    using assms(2) by (rule in_set_dropWhile)
  then have "dropWhile is_space (rev (dropWhile is_space s)) \<noteq> []"
    by (cases "dropWhile is_space (rev (dropWhile is_space s))") simp_all
  then show ?thesis by (simp only: strip_def rev_is_Nil_conv not_False_eq_True)
qed

lemma sublist_lower_not_space:
  assumes "sublist w (lower p)" "w \<noteq> []" "\<forall>c\<in>set w. \<not> is_space c"
  shows "\<exists>x\<in>set p. \<not> is_space x"
proof (rule ccontr)
  assume "\<not> (\<exists>x\<in>set p. \<not> is_space x)"
  then have "\<forall>c\<in>set p. is_space c" by blast
  then have "lower p = p" unfolding lower_def by (rule lower_from_spaces)
  with assms(1) have "set w \<subseteq> set p" by (auto simp: sublist_def)
  moreover from assms(2) obtain c where "c \<in> set w" by (cases w) auto
  ultimately have "c \<in> set p" by blast
  with \<open>\<forall>c\<in>set p. is_space c\<close> \<open>c \<in> set w\<close> assms(3) show False by blast
qed

lemma sublist_newline_split:
  assumes "sublist w (a @ 10 # b)" "10 \<notin> set w"
  shows "sublist w a \<or> sublist w b"
proof -
  from assms(1) consider "sublist w a" | "sublist w (10 # b)"
    | xs1 xs2 where "w = xs1 @ xs2" "suffix xs1 a" "prefix xs2 (10 # b)"
    by (auto simp: sublist_append)
  then show ?thesis
  proof cases
    case 1
    then show ?thesis by simp
  next
    case 2
    then have "prefix w (10 # b) \<or> sublist w b" by (simp add: sublist_Cons_right)
    moreover have "w = []" if "prefix w (10 # b)"
      using that assms(2) by (cases w) auto
    ultimately show ?thesis by auto
  next
    case 3
    from 3(1) assms(2) have "10 \<notin> set xs2" by simp
    with 3(3) have "xs2 = []" by (cases xs2) auto
    with 3(1,2) have "suffix w a" by simp
    then show ?thesis by (simp add: suffix_imp_sublist)
  qed
qed

lemma sublist_join_piece:
  "sublist w (join [10, 10] qs) \<Longrightarrow> w \<noteq> [] \<Longrightarrow> 10 \<notin> set w \<Longrightarrow> \<exists>q\<in>set qs. sublist w q"
proof (induction "[10::nat, 10]" qs rule: join.induct)
  case 1
  then show ?case by simp
next
  case (2 x)
  then show ?case by simp
next
  case (3 x y ys)
  from "3.prems"(1) have "sublist w (x @ 10 # (10 # join [10, 10] (y # ys)))" by simp
  then have "sublist w x \<or> sublist w (10 # join [10, 10] (y # ys))"
    using "3.prems"(3) by (rule sublist_newline_split)
  moreover have "sublist w (join [10, 10] (y # ys))"
    if "sublist w ([] @ 10 # join [10, 10] (y # ys))"
    using sublist_newline_split [OF that "3.prems"(3)] "3.prems"(2) by auto
  ultimately consider "sublist w x" | "sublist w (join [10, 10] (y # ys))" by auto
  then show ?case
  proof cases
    case 1
    then show ?thesis by simp
  next
    case 2
    with "3.hyps" "3.prems"(2,3) show ?thesis by auto
  qed
qed

lemma sublist_lower_piece:
  assumes "sublist w (lower s)" "w \<noteq> []" "10 \<notin> set w"
  shows "\<exists>p\<in>set (split_str s [10, 10]). sublist w (lower p)"
proof -
  have "lower s = lower (join [10, 10] (split_str s [10, 10]))"
    by (simp add: join_split_str)
  also have "\<dots> = join [10, 10] (map lower (split_str s [10, 10]))"
    by (rule lower_join)
  finally have "sublist w (join [10, 10] (map lower (split_str s [10, 10])))"
    using assms(1) by simp
  then have "\<exists>q\<in>set (map lower (split_str s [10, 10])). sublist w q"
    using assms(2,3) by (rule sublist_join_piece)
  then show ?thesis by auto
qed

lemma sum_list_all_zero:
  "(\<And>x. x \<in> set xs \<Longrightarrow> f x = (0::nat)) \<Longrightarrow> sum_list (map f xs) = 0"
  by (induction xs) simp_all

lemma sum_list_pos_member:
  "x \<in> set xs \<Longrightarrow> 0 < f x \<Longrightarrow> 0 < sum_list (map f xs :: nat list)"
  by (induction xs) auto

lemma filter_sort_reverse:
  "filter (\<lambda>y. key y = k) (sort_reverse key xs) = filter (\<lambda>y. key y = k) xs"
  by (simp add: sort_reverse_def rev_filter [symmetric] sort_key_stable)

lemma sorted_wrt_sort_reverse:
  "sorted_wrt (\<lambda>a b. key b \<le> key a) (sort_reverse key xs)"
proof -
  have "sorted_wrt (\<lambda>a b. key a \<le> key b) (sort_key key (rev xs))"
    using sorted_sort_key [of key "rev xs"] by (simp add: sorted_map)
  then show ?thesis by (simp add: sort_reverse_def sorted_wrt_rev)
qed

lemma set_sort_reverse: "set (sort_reverse key xs) = set xs"
  by (simp add: sort_reverse_def)

lemma length_slice_to: "0 \<le> n \<Longrightarrow> int (length (slice_to xs n)) \<le> n"
  by (simp add: slice_to_def)

lemma slice_to_all: "int (length xs) \<le> n \<Longrightarrow> slice_to xs n = xs"
  by (simp add: slice_to_def)

lemma set_slice_to: "set (slice_to xs n) \<subseteq> set xs"
  by (simp add: slice_to_def set_take_subset)

lemma slice_to_take: "\<exists>m. slice_to xs n = take m xs"
  by (auto simp: slice_to_def)


section \<open>The loops of the server as list operations\<close>

text \<open>
  Each loop of the server is a \<open>find\<close>, a \<open>filter\<close>, a \<open>map\<close> or a sum over its list; a
  score is positive exactly when the query matches the document.
\<close>

lemma first_heading_find:
  "first_heading lines =
     (case find (prefix (ascii ''# '')) lines of
        None \<Rightarrow> ascii ''Unknown Title''
      | Some line \<Rightarrow> strip (drop 2 line))"
  by (induction lines) simp_all

lemma any_word_in_iff:
  "any_word_in query_words paragraph_lower \<longleftrightarrow>
     (\<exists>word\<in>set query_words. sublist word paragraph_lower)"
  by (induction query_words) (simp_all add: contains_sublist)

lemma relevant_from_eq:
  "relevant_from query_words paragraphs relevant =
     relevant @ map strip (filter (\<lambda>p. any_word_in query_words (lower p)) paragraphs)"
  by (induction paragraphs arbitrary: relevant) simp_all

lemma extract_relevant_content_eq:
  "extract_relevant_content content_str query_words =
     join [0x0A, 0x0A]
       (take 3 (map strip (filter (\<lambda>p. any_word_in query_words (lower p))
                             (split_str content_str [0x0A, 0x0A]))))"
  by (simp add: extract_relevant_content_def relevant_from_eq)

lemma any_word_in_qualifies:
  "\<forall>w\<in>set query_words. lower w = w \<Longrightarrow>
     any_word_in query_words (lower p) = qualifies query_words p"
  by (simp add: any_word_in_iff qualifies_def ci_contains_def)

lemma extract_relevant_content_not_Nil:
  assumes words: "\<forall>w\<in>set query_words. w \<noteq> [] \<and> (\<forall>c\<in>set w. \<not> is_space c)"
    and occ: "\<exists>w\<in>set query_words. sublist w (lower content_str)"
  shows "extract_relevant_content content_str query_words \<noteq> []"
proof -
  let ?Q = "\<lambda>p. any_word_in query_words (lower p)"
  let ?rel = "map strip (filter ?Q (split_str content_str [10, 10]))"
  from occ obtain w where w: "w \<in> set query_words" "sublist w (lower content_str)"
    by blast
  from w(1) words have wne: "w \<noteq> []" and wsp: "\<forall>c\<in>set w. \<not> is_space c" by auto
  from wsp is_space_newline have "10 \<notin> set w" by blast
  with w(2) wne obtain p where p: "p \<in> set (split_str content_str [10, 10])"
    "sublist w (lower p)"
    using sublist_lower_piece by blast
  from w(1) p(2) have "?Q p" by (auto simp: any_word_in_iff)
  with p(1) have "p \<in> set (filter ?Q (split_str content_str [10, 10]))" by simp
  then have rel: "?rel \<noteq> []" by (auto simp: filter_empty_conv)
  have ne: "x \<noteq> []" if "x \<in> set ?rel" for x
  proof -
    from that obtain q where q: "?Q q" "x = strip q" by auto
    from q(1) obtain v where v: "v \<in> set query_words" "sublist v (lower q)"
      by (auto simp: any_word_in_iff)
    from v(1) words have "v \<noteq> []" "\<forall>c\<in>set v. \<not> is_space c" by auto
    with v(2) obtain y where "y \<in> set q" "\<not> is_space y"
      using sublist_lower_not_space by blast
    then show ?thesis unfolding q(2) by (rule strip_not_Nil)
  qed
  from rel have "take 3 ?rel \<noteq> []" by simp
  moreover from ne have "\<forall>x\<in>set (take 3 ?rel). x \<noteq> []"
    by (meson in_set_takeD)
  ultimately have "join [10, 10] (take 3 ?rel) \<noteq> []" by (rule join_not_Nil)
  then show ?thesis unfolding extract_relevant_content_eq .
qed

lemma score_from_sum:
  "score_from content_lower query_words score =
     score + (\<Sum>word\<leftarrow>query_words. count_str content_lower word)"
  by (induction query_words arbitrary: score) (auto simp: count_str_zero)

lemma search_from_eq:
  "search_from query_lower items results =
     results @ map (result_of query_lower)
                 (filter (\<lambda>item. 0 < score_of query_lower (snd item)) items)"
proof (induction items arbitrary: results)
  case Nil
  show ?case by simp
next
  case (Cons item items)
  obtain filename doc where item: "item = (filename, doc)" by (cases item)
  show ?case
    unfolding item by (simp add: Cons.IH Let_def score_of_def result_of_def)
qed

lemma score_of_doc_score: "score_of (lower query) doc = doc_score query doc"
  by (simp add: score_of_def doc_score_def score_from_sum)

lemma doc_score_pos_iff: "0 < doc_score query doc \<longleftrightarrow> matches query doc"
proof
  assume "0 < doc_score query doc"
  then have "\<not> (\<forall>word\<in>set (split_ws (lower query)).
                 count_str (lower (doc_content doc)) word = 0)"
    unfolding doc_score_def using sum_list_all_zero [of "split_ws (lower query)"] by fastforce
  then obtain word where w: "word \<in> set (split_ws (lower query))"
    and pos: "count_str (lower (doc_content doc)) word \<noteq> 0"
    by blast
  from pos have "contains (lower (doc_content doc)) word"
    by (rule contrapos_np) (rule count_str_zero)
  with w show "matches query doc"
    by (auto simp: matches_def contains_sublist)
next
  assume "matches query doc"
  then obtain word where w: "word \<in> set (split_ws (lower query))"
    and c: "contains (lower (doc_content doc)) word"
    by (auto simp: matches_def contains_sublist)
  from w have "word \<noteq> []" by (simp add: split_ws_words)
  then have "0 < count_str (lower (doc_content doc)) word" using c by (rule count_str_pos)
  with w show "0 < doc_score query doc"
    unfolding doc_score_def by (rule sum_list_pos_member)
qed

lemma matches_iff: "matches query doc \<longleftrightarrow> 0 < doc_score query doc"
  by (simp add: doc_score_pos_iff)

lemma search_eq:
  "search self query n =
     slice_to (sort_reverse relevance_score
                 (map (result_of (lower query))
                    (filter (\<lambda>item. 0 < doc_score query (snd item)) (documents self)))) n"
  by (simp add: search_def search_from_eq score_of_doc_score)

lemma search_result_cases:
  assumes "r \<in> set (search self query n)"
  obtains item where "item \<in> set (documents self)" "0 < doc_score query (snd item)"
    "r = result_of (lower query) item"
proof -
  from assms
  have "r \<in> set (sort_reverse relevance_score
                 (map (result_of (lower query))
                    (filter (\<lambda>item. 0 < doc_score query (snd item)) (documents self))))"
    unfolding search_eq by (rule subsetD [OF set_slice_to])
  then have "r \<in> result_of (lower query) `
                 {item \<in> set (documents self). 0 < doc_score query (snd item)}"
    by (simp add: set_sort_reverse)
  then show thesis using that by blast
qed

lemma result_of_sel:
  "file_path (result_of ql item) = fst item"
  "relevance_score (result_of (lower query) item) = doc_score query (snd item)"
  "title (result_of ql item) = doc_title (snd item)"
  by (simp_all add: result_of_def score_of_doc_score)

lemma map_file_path_results:
  "map file_path (map (result_of ql) items) = map fst items"
  by (simp add: result_of_def comp_def)


section \<open>Evaluation on the examples\<close>

text \<open>The functions on concrete strings, computed by rewriting.\<close>

lemmas eval_defs =
  ascii_def is_space_def lower_def to_lower_full_def to_lower_def count_str_eval split_str_eval split_ws_def
  strip_def slice_to_def sort_reverse_def extract_title_def glob_md_def load_documents_def
  init_def extract_relevant_content_def search_def Let_def suffix_to_prefix
  Path_def splitroot_def str_path_def child_def

lemmas spec_defs = qualifies_def ci_contains_def sublist_code

lemma example_kb_eval:
  "example_kb =
     \<lparr>data_dir = PosixPath (ascii ''/'') [ascii ''app'', ascii ''data''],
      documents = [(ascii ''a.md'', a_doc), (ascii ''b.md'', b_doc)]\<rparr>"
  by (simp add: example_kb_def example_fs_def a_doc_def b_doc_def a_md_def b_md_def eval_defs)

lemma search_example_fight:
  "search example_kb (ascii ''fight'') 3 =
     [\<lparr>title = ascii ''Strategy'', content = ascii ''Win without fighting.'',
       relevance_score = 1, file_path = ascii ''a.md''\<rparr>,
      \<lparr>title = ascii ''Tactics'', content = ascii ''Fight smart.'',
       relevance_score = 1, file_path = ascii ''b.md''\<rparr>]"
  by (simp add: example_kb_eval a_doc_def b_doc_def a_md_def b_md_def eval_defs)

lemma search_example_plan:
  "search example_kb (ascii ''plan'') 3 =
     [\<lparr>title = ascii ''Strategy'', content = ascii ''Plan carefully.'',
       relevance_score = 1, file_path = ascii ''a.md''\<rparr>]"
  by (simp add: example_kb_eval a_doc_def b_doc_def a_md_def b_md_def eval_defs)

lemma search_example_retreat:
  "search example_kb (ascii ''retreat'') 3 = []"
  by (simp add: example_kb_eval a_doc_def b_doc_def a_md_def b_md_def eval_defs)

lemma search_three_fight:
  "search three_kb (ascii ''fight'') 2 =
     [\<lparr>title = ascii ''Y'', content = ascii ''Fight, fight!'',
       relevance_score = 2, file_path = ascii ''y.md''\<rparr>,
      \<lparr>title = ascii ''X'', content = ascii ''fight'',
       relevance_score = 1, file_path = ascii ''x.md''\<rparr>]"
  by (simp add: three_kb_def eval_defs)

lemma search_aaa:
  "search aaa_kb (ascii ''aa'') 3 =
     [\<lparr>title = ascii ''Unknown Title'', content = ascii ''aaa'',
       relevance_score = 1, file_path = ascii ''c.md''\<rparr>]"
  by (simp add: aaa_kb_def aaa_doc_def eval_defs)

lemma split_titled_md:
  "split_str titled_md [0x0A] =
     [ascii ''## Notes''] @ ascii ''#  The Art of War '' # [ascii ''# Second'']"
  by (simp add: titled_md_def eval_defs)

lemma split_untitled_md:
  "split_str untitled_md [0x0A] = [ascii ''## Notes'', ascii ''#no space'']"
  by (simp add: untitled_md_def eval_defs)

lemma generate_answer_fight: "generate_answer (ascii ''fight'') fight_results = fight_answer"
  by (simp add: generate_answer_def fight_results_def fight_answer_def answer_head_def
        other_teachings_def ascii_def)


section \<open>The properties of the specification\<close>

text \<open>
  C9. On the store with \<open>a.md\<close> (content \<open># Strategy\n\nWin without fighting.\n\nPlan
  carefully.\<close>) inserted first and \<open>b.md\<close> (content \<open># Tactics\n\nFight smart.\<close>) inserted
  second, the search for \<open>fight\<close> returns both documents, each with the score 1 (the
  token is counted inside \<open>fighting\<close>), \<open>a.md\<close> before \<open>b.md\<close>.
\<close>

theorem search_example_both_score_one:
  "documents example_kb = [(ascii ''a.md'', a_doc), (ascii ''b.md'', b_doc)] \<and>
   map (\<lambda>r. (file_path r, relevance_score r)) (search example_kb (ascii ''fight'') 3) =
     [(ascii ''a.md'', 1), (ascii ''b.md'', 1)]"
  by (simp add: search_example_fight) (simp add: example_kb_eval)

text \<open>
  C3. Every result returned by \<open>search\<close> has a score of at least 1, and a document whose
  score is 0 is not among the results (the keys of the store being distinct, as those
  of a dictionary are).
\<close>

theorem search_scores_positive:
  "(r \<in> set (search self query n) \<longrightarrow> 1 \<le> relevance_score r) \<and>
   (distinct (map fst (documents self)) \<and> (k, d) \<in> set (documents self) \<and>
    doc_score query d = 0 \<longrightarrow> k \<notin> file_path ` set (search self query n))"
proof (intro conjI impI)
  assume "r \<in> set (search self query n)"
  then obtain item where "0 < doc_score query (snd item)" "r = result_of (lower query) item"
    by (rule search_result_cases)
  then show "1 \<le> relevance_score r" by (simp add: result_of_sel)
next
  assume a: "distinct (map fst (documents self)) \<and> (k, d) \<in> set (documents self) \<and>
    doc_score query d = 0"
  show "k \<notin> file_path ` set (search self query n)"
  proof
    assume "k \<in> file_path ` set (search self query n)"
    then obtain r where r: "r \<in> set (search self query n)" and k: "k = file_path r" by blast
    from r obtain item where item: "item \<in> set (documents self)"
      "0 < doc_score query (snd item)" "r = result_of (lower query) item"
      by (rule search_result_cases)
    from k item(3) have "fst item = k" by (simp add: result_of_sel)
    with item(1) have "(k, snd item) \<in> set (documents self)" by (metis prod.collapse)
    with a have "snd item = d" by (meson eq_key_imp_eq_value)
    with item(2) a show False by simp
  qed
qed

theorem search_scores_positive_witness:
  "\<lparr>title = ascii ''Strategy'', content = ascii ''Plan carefully.'',
     relevance_score = 1, file_path = ascii ''a.md''\<rparr>
     \<in> set (search example_kb (ascii ''plan'') 3) \<and>
   distinct (map fst (documents example_kb)) \<and>
   (ascii ''b.md'', b_doc) \<in> set (documents example_kb) \<and>
   doc_score (ascii ''plan'') b_doc = 0 \<and>
   ascii ''b.md'' \<notin> file_path ` set (search example_kb (ascii ''plan'') 3)"
proof -
  have 1: "distinct (map fst (documents example_kb))"
    by (simp add: example_kb_eval ascii_def)
  have 2: "(ascii ''b.md'', b_doc) \<in> set (documents example_kb)"
    by (simp add: example_kb_eval)
  have 3: "doc_score (ascii ''plan'') b_doc = 0"
    by (simp add: doc_score_def b_doc_def b_md_def eval_defs)
  from 1 2 3
    search_scores_positive
      [of "\<lparr>title = ascii ''Strategy'', content = ascii ''Plan carefully.'',
             relevance_score = 1, file_path = ascii ''a.md''\<rparr>"
          example_kb "ascii ''plan''" 3 "ascii ''b.md''" b_doc]
  show ?thesis by (simp add: search_example_plan)
qed

text \<open>
  C2. The results of \<open>search\<close> are in descending order of score; the results of equal
  score appear in the order in which their documents were inserted in the store; and
  there are at most \<open>max_results\<close> of them. The data model of the specification makes
  \<open>max_results\<close> a positive integer; the bound is proved for every \<open>max_results\<close> that is
  not negative.
\<close>

theorem search_sorted_stable_bounded:
  "sorted_wrt (\<lambda>a b. relevance_score b \<le> relevance_score a) (search self query n) \<and>
   (\<forall>k. subseq (map file_path (filter (\<lambda>r. relevance_score r = k) (search self query n)))
              (map fst (documents self))) \<and>
   (0 \<le> n \<longrightarrow> int (length (search self query n)) \<le> n)"
proof (intro conjI allI impI)
  define unsorted where
    "unsorted = map (result_of (lower query))
                  (filter (\<lambda>item. 0 < doc_score query (snd item)) (documents self))"
  have s: "search self query n = slice_to (sort_reverse relevance_score unsorted) n"
    by (simp add: search_eq unsorted_def)
  obtain m where m: "search self query n = take m (sort_reverse relevance_score unsorted)"
    unfolding s using slice_to_take by blast
  show "sorted_wrt (\<lambda>a b. relevance_score b \<le> relevance_score a) (search self query n)"
    unfolding m by (rule sorted_wrt_take) (rule sorted_wrt_sort_reverse)
  show "int (length (search self query n)) \<le> n" if "0 \<le> n"
    unfolding s using that by (rule length_slice_to)
  fix k
  let ?P = "\<lambda>r. relevance_score r = k"
  have "prefix (filter ?P (search self query n)) (filter ?P (sort_reverse relevance_score unsorted))"
    unfolding m by (metis append_take_drop_id filter_append prefixI)
  then have "subseq (filter ?P (search self query n)) (filter ?P unsorted)"
    by (simp add: filter_sort_reverse prefix_imp_subseq)
  also have "subseq (filter ?P unsorted) unsorted" by simp
  finally have "subseq (map file_path (filter ?P (search self query n))) (map file_path unsorted)"
    by (rule subseq_map)
  also have "map file_path unsorted =
      map fst (filter (\<lambda>item. 0 < doc_score query (snd item)) (documents self))"
    unfolding unsorted_def by (rule map_file_path_results)
  also have "subseq \<dots> (map fst (documents self))"
    by (intro subseq_map) simp
  finally show "subseq (map file_path (filter ?P (search self query n))) (map fst (documents self))" .
qed

theorem search_sorted_stable_bounded_witness:
  "(0::int) \<le> 2 \<and> int (length (search three_kb (ascii ''fight'') 2)) \<le> 2 \<and>
   map relevance_score (search three_kb (ascii ''fight'') 2) = [2, 1]"
  using search_sorted_stable_bounded [of three_kb "ascii ''fight''" 2]
  by (simp add: search_three_fight)

text \<open>
  C1, as stated: the score of a result is the sum, over the tokens of the query, of the
  number of occurrences of the token as a substring of the lowercased content. It fails
  where a token overlaps itself: in \<open>aaa\<close> the token \<open>aa\<close> occurs twice, at the positions 0
  and 1, and \<open>count\<close> finds one occurrence.
\<close>

theorem search_score_overlap_counterexample:
  "(ascii ''c.md'', aaa_doc) \<in> set (documents aaa_kb) \<and>
   map (\<lambda>r. (file_path r, relevance_score r)) (search aaa_kb (ascii ''aa'') 3) =
     [(ascii ''c.md'', 1)] \<and>
   occurrence_sum (ascii ''aa'') aaa_doc = 2"
  by (simp add: search_aaa) (simp add: aaa_kb_def aaa_doc_def occurrence_sum_def occurrences_def eval_defs)

text \<open>
  C1, amended: the score of the result of a document is the sum, over the tokens of the
  query, of the number of occurrences of the token in the lowercased content that
  \<open>count\<close> finds, which do not overlap; and for a query matching one document only, and
  \<open>max_results\<close> at least 1, \<open>search\<close> returns exactly one result, with the key of that
  document and this sum as its score.
\<close>

theorem search_score_is_count_sum:
  "(distinct (map fst (documents self)) \<and> (k, d) \<in> set (documents self) \<and>
    r \<in> set (search self query n) \<and> file_path r = k \<longrightarrow>
      relevance_score r = doc_score query d) \<and>
   (filter (\<lambda>item. matches query (snd item)) (documents self) = [(key, D)] \<and> 1 \<le> n \<longrightarrow>
      (\<exists>r. search self query n = [r] \<and> file_path r = key \<and>
           relevance_score r = doc_score query D))"
proof (intro conjI impI)
  assume a: "distinct (map fst (documents self)) \<and> (k, d) \<in> set (documents self) \<and>
    r \<in> set (search self query n) \<and> file_path r = k"
  then obtain item where item: "item \<in> set (documents self)"
    "r = result_of (lower query) item"
    by (blast elim: search_result_cases)
  from a item(2) have "fst item = k" by (simp add: result_of_sel)
  with item(1) have "(k, snd item) \<in> set (documents self)" by (metis prod.collapse)
  with a have "snd item = d" by (meson eq_key_imp_eq_value)
  with item(2) show "relevance_score r = doc_score query d" by (simp add: result_of_sel)
next
  assume a: "filter (\<lambda>item. matches query (snd item)) (documents self) = [(key, D)] \<and> 1 \<le> n"
  then have "search self query n = slice_to [result_of (lower query) (key, D)] n"
    by (simp add: search_eq matches_iff [symmetric] sort_reverse_def)
  moreover from a have "int (length [result_of (lower query) (key, D)]) \<le> n" by simp
  ultimately have "search self query n = [result_of (lower query) (key, D)]"
    by (simp only: slice_to_all)
  then show "\<exists>r. search self query n = [r] \<and> file_path r = key \<and>
           relevance_score r = doc_score query D"
    by (simp add: result_of_sel)
qed

theorem search_score_is_count_sum_witness:
  "distinct (map fst (documents example_kb)) \<and>
   (ascii ''a.md'', a_doc) \<in> set (documents example_kb) \<and>
   \<lparr>title = ascii ''Strategy'', content = ascii ''Plan carefully.'',
     relevance_score = 1, file_path = ascii ''a.md''\<rparr>
     \<in> set (search example_kb (ascii ''plan'') 3) \<and>
   doc_score (ascii ''plan'') a_doc = 1 \<and>
   filter (\<lambda>item. matches (ascii ''plan'') (snd item)) (documents example_kb) =
     [(ascii ''a.md'', a_doc)] \<and>
   (1::int) \<le> 3 \<and>
   (\<exists>r. search example_kb (ascii ''plan'') 3 = [r] \<and> file_path r = ascii ''a.md'' \<and>
        relevance_score r = doc_score (ascii ''plan'') a_doc)"
proof -
  have 1: "distinct (map fst (documents example_kb))"
    by (simp add: example_kb_eval ascii_def)
  have 2: "(ascii ''a.md'', a_doc) \<in> set (documents example_kb)"
    by (simp add: example_kb_eval)
  have 3: "filter (\<lambda>item. matches (ascii ''plan'') (snd item)) (documents example_kb) =
     [(ascii ''a.md'', a_doc)]"
    by (simp add: example_kb_eval matches_def a_doc_def b_doc_def a_md_def b_md_def
          eval_defs sublist_code)
  from 1 2 3
    search_score_is_count_sum
      [of example_kb "ascii ''a.md''" a_doc
          "\<lparr>title = ascii ''Strategy'', content = ascii ''Plan carefully.'',
             relevance_score = 1, file_path = ascii ''a.md''\<rparr>"
          "ascii ''plan''" 3 "ascii ''a.md''" a_doc]
  show ?thesis by (simp add: search_example_plan)
qed

text \<open>
  C6. When no token of the query occurs in the lowercased content of any document,
  \<open>search\<close> returns the empty list; and \<open>generate_answer\<close> on the empty list returns the
  one fixed message, whatever the query.
\<close>

theorem no_match_no_results:
  "((\<forall>item\<in>set (documents self). \<not> matches query (snd item)) \<longrightarrow>
      search self query n = [] \<and>
      generate_answer query (search self query n) = not_found_message) \<and>
   generate_answer query [] = not_found_message"
proof (intro conjI impI)
  show g: "generate_answer query [] = not_found_message"
    by (simp add: generate_answer_def)
  assume "\<forall>item\<in>set (documents self). \<not> matches query (snd item)"
  then have "filter (\<lambda>item. 0 < doc_score query (snd item)) (documents self) = []"
    by (simp add: matches_iff filter_empty_conv)
  then show e: "search self query n = []"
    by (simp add: search_eq sort_reverse_def slice_to_def)
  show "generate_answer query (search self query n) = not_found_message"
    unfolding e by (rule g)
qed

theorem no_match_no_results_witness:
  "documents example_kb = [(ascii ''a.md'', a_doc), (ascii ''b.md'', b_doc)] \<and>
   \<not> matches (ascii ''retreat'') a_doc \<and> \<not> matches (ascii ''retreat'') b_doc \<and>
   search example_kb (ascii ''retreat'') 3 = [] \<and>
   generate_answer (ascii ''retreat'') (search example_kb (ascii ''retreat'') 3) =
     not_found_message"
proof -
  have 1: "documents example_kb = [(ascii ''a.md'', a_doc), (ascii ''b.md'', b_doc)]"
    by (simp add: example_kb_eval)
  have 2: "\<not> matches (ascii ''retreat'') a_doc"
    by (simp add: matches_def a_doc_def a_md_def eval_defs sublist_code)
  have 3: "\<not> matches (ascii ''retreat'') b_doc"
    by (simp add: matches_def b_doc_def b_md_def eval_defs sublist_code)
  from 1 2 3
  have "\<forall>item\<in>set (documents example_kb). \<not> matches (ascii ''retreat'') (snd item)"
    by simp
  with no_match_no_results [of example_kb "ascii ''retreat''" 3]
  have "search example_kb (ascii ''retreat'') 3 = [] \<and>
    generate_answer (ascii ''retreat'') (search example_kb (ascii ''retreat'') 3) =
      not_found_message"
    by blast
  with 1 2 3 show ?thesis by blast
qed

text \<open>
  C7. \<open>extract_title\<close> returns the text after the marker, stripped, of the first line of
  the content that begins with the heading marker \<open>#\<close> followed by a space, and the
  placeholder \<open>Unknown Title\<close> when no line begins with it. The lines are the pieces of
  the content between line feeds.
\<close>

theorem extract_title_first_heading:
  "(split_str content_str [0x0A] = before @ line # after \<and>
    (\<forall>l\<in>set before. \<not> prefix (ascii ''# '') l) \<and> prefix (ascii ''# '') line \<longrightarrow>
      extract_title content_str = strip (drop 2 line)) \<and>
   ((\<forall>l\<in>set (split_str content_str [0x0A]). \<not> prefix (ascii ''# '') l) \<longrightarrow>
      extract_title content_str = ascii ''Unknown Title'')"
proof (intro conjI impI)
  assume a: "split_str content_str [0x0A] = before @ line # after \<and>
    (\<forall>l\<in>set before. \<not> prefix (ascii ''# '') l) \<and> prefix (ascii ''# '') line"
  then have "find (prefix (ascii ''# '')) (split_str content_str [0x0A]) = Some line"
    by (auto simp: find_Some_iff nth_append intro!: exI [of _ "length before"])
  then show "extract_title content_str = strip (drop 2 line)"
    by (simp add: extract_title_def first_heading_find)
next
  assume "\<forall>l\<in>set (split_str content_str [0x0A]). \<not> prefix (ascii ''# '') l"
  then have "find (prefix (ascii ''# '')) (split_str content_str [0x0A]) = None"
    by (simp add: find_None_iff)
  then show "extract_title content_str = ascii ''Unknown Title''"
    by (simp add: extract_title_def first_heading_find)
qed

theorem extract_title_first_heading_witness:
  "split_str titled_md [0x0A] =
     [ascii ''## Notes''] @ ascii ''#  The Art of War '' # [ascii ''# Second''] \<and>
   \<not> prefix (ascii ''# '') (ascii ''## Notes'') \<and>
   prefix (ascii ''# '') (ascii ''#  The Art of War '') \<and>
   extract_title titled_md = ascii ''The Art of War'' \<and>
   split_str untitled_md [0x0A] = [ascii ''## Notes'', ascii ''#no space''] \<and>
   \<not> prefix (ascii ''# '') (ascii ''#no space'') \<and>
   extract_title untitled_md = ascii ''Unknown Title''"
proof -
  have 1: "\<not> prefix (ascii ''# '') (ascii ''## Notes'')"
    by (simp add: ascii_def)
  have 2: "prefix (ascii ''# '') (ascii ''#  The Art of War '')"
    by (simp add: ascii_def)
  have 3: "\<not> prefix (ascii ''# '') (ascii ''#no space'')"
    by (simp add: ascii_def)
  have 4: "strip (drop 2 (ascii ''#  The Art of War '')) = ascii ''The Art of War''"
    by (simp add: eval_defs)
  from 1 have 5: "\<forall>l\<in>set [ascii ''## Notes'']. \<not> prefix (ascii ''# '') l"
    by simp
  from 1 3 have 6: "\<forall>l\<in>set (split_str untitled_md [0x0A]). \<not> prefix (ascii ''# '') l"
    unfolding split_untitled_md by simp
  from 2 5 split_titled_md
    extract_title_first_heading
      [of titled_md "[ascii ''## Notes'']" "ascii ''#  The Art of War ''" "[ascii ''# Second'']"]
  have 7: "extract_title titled_md = ascii ''The Art of War''"
    unfolding 4 by blast
  from 6 extract_title_first_heading [of untitled_md]
  have 8: "extract_title untitled_md = ascii ''Unknown Title''"
    by blast
  from 1 2 3 7 8 split_titled_md split_untitled_md show ?thesis by blast
qed

text \<open>
  C8. When the data directory does not exist, loading returns normally with the store
  empty: the knowledge base that the constructor builds has no document, and
  \<open>documents_loaded\<close> is 0.
\<close>

theorem missing_directory_empty_store:
  "fs (Path dir) = None \<longrightarrow>
     init fs dir = \<lparr>data_dir = Path dir, documents = []\<rparr> \<and>
     documents_loaded (init fs dir) = 0"
  by (simp add: init_def load_documents_def documents_loaded_def)

theorem missing_directory_empty_store_witness:
  "example_fs (Path (ascii ''/srv/data/'')) = None \<and>
   init example_fs (ascii ''/srv/data/'') =
     \<lparr>data_dir = PosixPath (ascii ''/'') [ascii ''srv'', ascii ''data''], documents = []\<rparr> \<and>
   documents_loaded (init example_fs (ascii ''/srv/data/'')) = 0"
proof -
  have 1: "example_fs (Path (ascii ''/srv/data/'')) = None"
    by (simp add: example_fs_def eval_defs)
  have 2: "Path (ascii ''/srv/data/'') = PosixPath (ascii ''/'') [ascii ''srv'', ascii ''data'']"
    by (simp add: eval_defs)
  from 1 missing_directory_empty_store [of example_fs "ascii ''/srv/data/''"]
  show ?thesis unfolding 2 by blast
qed

text \<open>
  C4, as stated, for every list of tokens: it fails for a token with a capital letter.
  The paragraph \<open>Fight smart.\<close> contains the token \<open>Fight\<close>, yet the result is empty,
  since the paragraph is lowercased and the token is not.
\<close>

theorem extract_relevant_content_case_counterexample:
  "split_str (ascii ''Fight smart.'') [0x0A, 0x0A] = [ascii ''Fight smart.''] \<and>
   qualifies [ascii ''Fight''] (ascii ''Fight smart.'') \<and>
   extract_relevant_content (ascii ''Fight smart.'') [ascii ''Fight''] = [] \<and>
   join [0x0A, 0x0A]
     (take 3 (map strip (filter (qualifies [ascii ''Fight''])
                           (split_str (ascii ''Fight smart.'') [0x0A, 0x0A])))) =
     ascii ''Fight smart.''"
  by (simp add: eval_defs spec_defs)

text \<open>
  C4, amended: for tokens that are in lower case, each equal to its own lowercasing,
  \<open>extract_relevant_content\<close> cuts the content into paragraphs at the separator of two
  line feeds, keeps in their order the paragraphs that contain a token as a
  case-insensitive substring, and returns the first three of them at most, stripped and
  joined by two line feeds; when no paragraph qualifies the result is the empty string.
\<close>

theorem extract_relevant_content_paragraphs:
  "(\<forall>w\<in>set query_words. lower w = w) \<longrightarrow>
     extract_relevant_content content_str query_words =
       join [0x0A, 0x0A]
         (take 3 (map strip (filter (qualifies query_words)
                               (split_str content_str [0x0A, 0x0A])))) \<and>
     ((\<forall>p\<in>set (split_str content_str [0x0A, 0x0A]). \<not> qualifies query_words p) \<longrightarrow>
        extract_relevant_content content_str query_words = [])"
proof (intro impI)
  assume low: "\<forall>w\<in>set query_words. lower w = w"
  then have f: "filter (\<lambda>p. any_word_in query_words (lower p)) ps =
                filter (qualifies query_words) ps" for ps
    by (simp add: any_word_in_qualifies)
  have e: "extract_relevant_content content_str query_words =
       join [0x0A, 0x0A]
         (take 3 (map strip (filter (qualifies query_words)
                               (split_str content_str [0x0A, 0x0A]))))"
    by (simp only: extract_relevant_content_eq f)
  have "extract_relevant_content content_str query_words = []"
    if "\<forall>p\<in>set (split_str content_str [0x0A, 0x0A]). \<not> qualifies query_words p"
  proof -
    from that have "filter (qualifies query_words) (split_str content_str [0x0A, 0x0A]) = []"
      by (simp add: filter_empty_conv)
    then show ?thesis by (simp add: e)
  qed
  with e show "extract_relevant_content content_str query_words =
       join [0x0A, 0x0A]
         (take 3 (map strip (filter (qualifies query_words)
                               (split_str content_str [0x0A, 0x0A])))) \<and>
     ((\<forall>p\<in>set (split_str content_str [0x0A, 0x0A]). \<not> qualifies query_words p) \<longrightarrow>
        extract_relevant_content content_str query_words = [])"
    by blast
qed

theorem extract_relevant_content_paragraphs_witness:
  "lower (ascii ''a'') = ascii ''a'' \<and>
   split_str five_paragraphs [0x0A, 0x0A] =
     [ascii ''a b'', ascii '' A c '', ascii ''x'', ascii ''a'', ascii ''A''] \<and>
   extract_relevant_content five_paragraphs [ascii ''a''] =
     ascii ''a b'' @ [0x0A, 0x0A] @ ascii ''A c'' @ [0x0A, 0x0A] @ ascii ''a'' \<and>
   split_str (ascii ''x'') [0x0A, 0x0A] = [ascii ''x''] \<and>
   \<not> qualifies [ascii ''a''] (ascii ''x'') \<and>
   extract_relevant_content (ascii ''x'') [ascii ''a''] = []"
proof -
  have 0: "lower (ascii ''a'') = ascii ''a''"
    by (simp add: eval_defs)
  have 7: "split_str (ascii ''x'') [0x0A, 0x0A] = [ascii ''x'']"
    by (simp add: eval_defs)
  have 8: "\<not> qualifies [ascii ''a''] (ascii ''x'')"
    by (simp add: eval_defs spec_defs)
  from 0 have 1: "\<forall>w\<in>set [ascii ''a'']. lower w = w"
    by simp
  have 2: "split_str five_paragraphs [0x0A, 0x0A] =
     [ascii ''a b'', ascii '' A c '', ascii ''x'', ascii ''a'', ascii ''A'']"
    by (simp add: five_paragraphs_def eval_defs)
  have 3: "join [0x0A, 0x0A]
         (take 3 (map strip (filter (qualifies [ascii ''a''])
            [ascii ''a b'', ascii '' A c '', ascii ''x'', ascii ''a'', ascii ''A'']))) =
     ascii ''a b'' @ [0x0A, 0x0A] @ ascii ''A c'' @ [0x0A, 0x0A] @ ascii ''a''"
    by (simp add: eval_defs spec_defs)
  from 7 8
  have 4: "\<forall>p\<in>set (split_str (ascii ''x'') [0x0A, 0x0A]). \<not> qualifies [ascii ''a''] p"
    by simp
  from 1 extract_relevant_content_paragraphs [of "[ascii ''a'']" five_paragraphs]
  have 5: "extract_relevant_content five_paragraphs [ascii ''a''] =
     ascii ''a b'' @ [0x0A, 0x0A] @ ascii ''A c'' @ [0x0A, 0x0A] @ ascii ''a''"
    unfolding 2 3 by blast
  from 1 4 extract_relevant_content_paragraphs [of "[ascii ''a'']" "ascii ''x''"]
  have 6: "extract_relevant_content (ascii ''x'') [ascii ''a''] = []"
    by blast
  from 0 2 5 6 7 8 show ?thesis by blast
qed

text \<open>
  C5, as stated: the answer begins with \<open>From '<title>':\<close> and two line feeds. The
  answer to \<open>fight\<close> on the example store begins with a corner bracket instead.
\<close>

theorem generate_answer_from_counterexample:
  "search example_kb (ascii ''fight'') 3 = fight_results \<and>
   generate_answer (ascii ''fight'') fight_results = fight_answer \<and>
   \<not> prefix (ascii ''From '' @ [0x27] @ ascii ''Strategy'' @ [0x27] @ ascii '':'' @
             [0x0A, 0x0A])
       fight_answer"
proof (intro conjI)
  show "search example_kb (ascii ''fight'') 3 = fight_results"
    unfolding fight_results_def by (rule search_example_fight)
  show "generate_answer (ascii ''fight'') fight_results = fight_answer"
    by (rule generate_answer_fight)
  show "\<not> prefix (ascii ''From '' @ [0x27] @ ascii ''Strategy'' @ [0x27] @ ascii '':'' @
             [0x0A, 0x0A])
       fight_answer"
    by (simp add: fight_answer_def ascii_def)
qed

text \<open>
  C5, amended: on a list of results that is not empty, the answer is the title of the
  first result between corner brackets, followed by the Japanese for \<open>from\<close>, a full-width
  colon and two line feeds (\<open>answer_head\<close>), then the first 500 characters at most of the
  content of the first result; and, exactly when there is more than one result, the
  sentence \<open>other_teachings\<close> followed by the titles of the other results, joined by a
  comma and a space.
\<close>

theorem generate_answer_shape:
  "results = best # others \<longrightarrow>
     generate_answer query results =
       answer_head (title best) @ take 500 (content best) @
       (if others = [] then []
        else other_teachings @ join (ascii '', '') (map title others))"
  by (cases others) (simp_all add: generate_answer_def Let_def)

theorem generate_answer_shape_witness:
  "fight_results = hd fight_results # tl fight_results \<and>
   generate_answer (ascii ''fight'') fight_results =
     answer_head (ascii ''Strategy'') @ ascii ''Win without fighting.'' @
     other_teachings @ ascii ''Tactics''"
proof -
  have 1: "fight_results = hd fight_results # tl fight_results"
    by (simp add: fight_results_def)
  from 1 generate_answer_shape
      [of fight_results "hd fight_results" "tl fight_results" "ascii ''fight''"]
  show ?thesis by (simp add: fight_results_def ascii_def)
qed

text \<open>
  C10. Every result returned by \<open>search\<close> has a content that is not empty. A result is
  appended only when some token of the query occurs in the lowercased content; a token
  holds no white space, hence no line feed, so the occurrence lies inside one paragraph,
  which qualifies; and every qualifying paragraph holds a character that is not white
  space, so stripping leaves it non-empty.
\<close>

theorem search_content_not_empty:
  "r \<in> set (search self query n) \<longrightarrow> content r \<noteq> []"
proof
  assume "r \<in> set (search self query n)"
  then obtain item where item: "0 < doc_score query (snd item)"
    "r = result_of (lower query) item"
    by (rule search_result_cases)
  from item(1) have "matches query (snd item)" by (simp add: doc_score_pos_iff)
  then have occ: "\<exists>w\<in>set (split_ws (lower query)). sublist w (lower (doc_content (snd item)))"
    by (simp add: matches_def)
  have words: "\<forall>w\<in>set (split_ws (lower query)). w \<noteq> [] \<and> (\<forall>c\<in>set w. \<not> is_space c)"
    using split_ws_words by blast
  from words occ
  have "extract_relevant_content (doc_content (snd item)) (split_ws (lower query)) \<noteq> []"
    by (rule extract_relevant_content_not_Nil)
  then show "content r \<noteq> []" by (simp add: item(2) result_of_def)
qed

theorem search_content_not_empty_witness:
  "\<lparr>title = ascii ''Tactics'', content = ascii ''Fight smart.'',
     relevance_score = 1, file_path = ascii ''b.md''\<rparr>
     \<in> set (search example_kb (ascii ''fight'') 3) \<and>
   content \<lparr>title = ascii ''Tactics'', content = ascii ''Fight smart.'',
            relevance_score = 1, file_path = ascii ''b.md''\<rparr> \<noteq> []"
proof -
  have "\<lparr>title = ascii ''Tactics'', content = ascii ''Fight smart.'',
     relevance_score = 1, file_path = ascii ''b.md''\<rparr>
     \<in> set (search example_kb (ascii ''fight'') 3)"
    by (simp add: search_example_fight)
  with search_content_not_empty
      [of "\<lparr>title = ascii ''Tactics'', content = ascii ''Fight smart.'',
             relevance_score = 1, file_path = ascii ''b.md''\<rparr>"
          example_kb "ascii ''fight''" 3]
  show ?thesis by blast
qed

end
